theory Spec2Isabelle
  imports Complex_Main
begin

section \<open>Python and numpy values\<close>

text \<open>
  The scripts compute on numpy arrays of 64-bit floats. Numbers are reals and an array is
  a list. The smoothness metric, the phase split and the segmentation are modelled in the
  arithmetic of the reals: they state what the formulas compute. The fatigue aggregator
  takes its arithmetic as a parameter, because its outputs are bands and rounded values of
  what it computes.
  A dictionary that the code only reads is a map from keys to numbers; a dictionary that
  the code returns is an association list in the order the source writes its keys.
\<close>

type_synonym rep_metrics = "string \<rightharpoonup> real"

datatype pyval =
    Num real
  | Str string
  | Bool bool
  | FStr string "real list"
  | PyList "pyval list"
  | Dict "(string \<times> pyval) list"

text \<open>\<open>m.get(key, default)\<close>\<close>

definition dict_get :: "rep_metrics \<Rightarrow> string \<Rightarrow> real \<Rightarrow> real" where
  "dict_get m k d = (case m k of None \<Rightarrow> d | Some v \<Rightarrow> v)"

text \<open>\<open>np.mean\<close> and \<open>np.std\<close> (population standard deviation, \<open>ddof = 0\<close>). On an empty
  array numpy returns \<open>nan\<close> with a warning; the model is only applied to non-empty lists.\<close>

definition np_mean :: "real list \<Rightarrow> real" where
  "np_mean xs = sum_list xs / real (length xs)"

definition np_std :: "real list \<Rightarrow> real" where
  "np_std xs = sqrt (np_mean (map (\<lambda>x. (x - np_mean xs)\<^sup>2) xs))"

text \<open>\<open>round(x, ndigits)\<close>: to the nearest multiple of \<open>10^-ndigits\<close>, ties to even.\<close>

definition round_half_even :: "real \<Rightarrow> int" where
  "round_half_even x =
     (let f = \<lfloor>x\<rfloor>; r = x - of_int f
      in if r < 1/2 then f else if r > 1/2 then f + 1 else if even f then f else f + 1)"

definition py_round :: "real \<Rightarrow> nat \<Rightarrow> real" where
  "py_round x ndigits = of_int (round_half_even (x * 10 ^ ndigits)) / 10 ^ ndigits"

text \<open>\<open>any(v > 0 for v in values)\<close>\<close>

definition any_positive :: "real list \<Rightarrow> bool" where
  "any_positive vs = (\<exists>v \<in> set vs. v > 0)"

text \<open>Slices \<open>values[:third]\<close> and \<open>values[-third:]\<close> for \<open>third \<ge> 1\<close>.\<close>

definition first_slice :: "nat \<Rightarrow> 'a list \<Rightarrow> 'a list" where
  "first_slice third xs = take third xs"

definition last_slice :: "nat \<Rightarrow> 'a list \<Rightarrow> 'a list" where
  "last_slice third xs = drop (length xs - third) xs"

section \<open>Session fatigue aggregator: \<open>compute_fatigue_indicators\<close>\<close>

text \<open>
  \<open>scripts/performance_visualizer.py\<close>, lines 314 to 794. The per-rep columns are read
  with \<open>m.get(key, default)\<close>.

  The aggregator computes in double precision, and what it returns depends on the
  computed values through tests and rounding: the level is a band of the computed score,
  every number is rounded to a few decimal places, and a mean or a standard deviation
  is tested against 0. The arithmetic is therefore a parameter \<open>fl\<close> of the model: the
  four operations, the value of a decimal literal of the source, the numpy reductions
  \<open>np.mean\<close> and \<open>np.std\<close>, the slope of \<open>stats.linregress\<close> and \<open>round(x, ndigits)\<close>.
  Each definition applies them in the order in which the source evaluates its expression.
  Comparisons, \<open>abs\<close>, \<open>min\<close> and \<open>max\<close> compute nothing and are exact, and so are the
  integer literals. The numbers of the model are the values the program holds; double
  arithmetic is one instance of \<open>fl\<close>, the arithmetic of the reals, \<open>exact_arith\<close>, is
  another.
\<close>

record float_ops =
  fl_add :: "real \<Rightarrow> real \<Rightarrow> real"
  fl_sub :: "real \<Rightarrow> real \<Rightarrow> real"
  fl_mul :: "real \<Rightarrow> real \<Rightarrow> real"
  fl_div :: "real \<Rightarrow> real \<Rightarrow> real"
  fl_lit :: "real \<Rightarrow> real"
  fl_mean :: "real list \<Rightarrow> real"
  fl_std :: "real list \<Rightarrow> real"
  fl_slope :: "real list \<Rightarrow> real list \<Rightarrow> real"
  fl_round :: "real \<Rightarrow> nat \<Rightarrow> real"

definition column :: "rep_metrics list \<Rightarrow> string \<Rightarrow> real \<Rightarrow> real list" where
  "column ms k d = map (\<lambda>m. dict_get m k d) ms"

definition third_of :: "rep_metrics list \<Rightarrow> nat" where
  "third_of ms = max 1 (length ms div 3)"

definition gyro_peaks :: "rep_metrics list \<Rightarrow> real list" where
  "gyro_peaks ms = column ms ''gyro_peak'' 0"

definition has_gyro :: "rep_metrics list \<Rightarrow> bool" where
  "has_gyro ms = any_positive (gyro_peaks ms)"

definition shakiness_vals :: "rep_metrics list \<Rightarrow> real list" where
  "shakiness_vals ms = column ms ''shakiness'' 0"

definition has_shakiness :: "rep_metrics list \<Rightarrow> bool" where
  "has_shakiness ms = any_positive (shakiness_vals ms)"

definition durations :: "rep_metrics list \<Rightarrow> real list" where
  "durations ms = column ms ''duration_ms'' 0"

definition jerk_values :: "rep_metrics list \<Rightarrow> real list" where
  "jerk_values ms = column ms ''mean_jerk'' 0"

definition has_rom_degrees :: "rep_metrics list \<Rightarrow> bool" where
  "has_rom_degrees ms = any_positive (column ms ''rom_degrees'' 0)"

definition roms :: "rep_metrics list \<Rightarrow> real list" where
  "roms ms = (if has_rom_degrees ms then column ms ''rom_degrees'' 0 else column ms ''rom'' 0)"

definition smoothness :: "rep_metrics list \<Rightarrow> real list" where
  "smoothness ms = column ms ''smoothness_score'' 50"

definition peaks :: "rep_metrics list \<Rightarrow> real list" where
  "peaks ms = column ms ''peak'' 0"

text \<open>Averages over the first and the last third of a column.\<close>

definition avg_first :: "float_ops \<Rightarrow> rep_metrics list \<Rightarrow> real list \<Rightarrow> real" where
  "avg_first fl ms vs = fl_mean fl (first_slice (third_of ms) vs)"

definition avg_last :: "float_ops \<Rightarrow> rep_metrics list \<Rightarrow> real list \<Rightarrow> real" where
  "avg_last fl ms vs = fl_mean fl (last_slice (third_of ms) vs)"

text \<open>The four indicators, lines 439 to 471.\<close>

definition D_omega :: "float_ops \<Rightarrow> rep_metrics list \<Rightarrow> real" where
  "D_omega fl ms =
     (if has_gyro ms then
        (let avg_gyro_first = avg_first fl ms (gyro_peaks ms);
             avg_gyro_last = avg_last fl ms (gyro_peaks ms)
         in if avg_gyro_first > 0
            then fl_div fl \<bar>fl_sub fl avg_gyro_first avg_gyro_last\<bar> avg_gyro_first else 0)
      else
        (let avg_peak_first = avg_first fl ms (peaks ms);
             avg_peak_last = avg_last fl ms (peaks ms)
         in if avg_peak_first > 0
            then fl_div fl \<bar>fl_sub fl avg_peak_first avg_peak_last\<bar> avg_peak_first else 0))"

definition gyro_direction :: "float_ops \<Rightarrow> rep_metrics list \<Rightarrow> string" where
  "gyro_direction fl ms =
     (if has_gyro ms then
        (if avg_last fl ms (gyro_peaks ms) < avg_first fl ms (gyro_peaks ms)
         then ''drop'' else ''surge'')
      else
        (if avg_last fl ms (peaks ms) < avg_first fl ms (peaks ms) then ''drop'' else ''surge''))"

definition I_T :: "float_ops \<Rightarrow> rep_metrics list \<Rightarrow> real" where
  "I_T fl ms =
     (let avg_dur_first = avg_first fl ms (durations ms);
          avg_dur_last = avg_last fl ms (durations ms)
      in if avg_dur_first > 0
         then fl_div fl (fl_sub fl avg_dur_last avg_dur_first) avg_dur_first else 0)"

definition I_J :: "float_ops \<Rightarrow> rep_metrics list \<Rightarrow> real" where
  "I_J fl ms =
     (let avg_jerk_first = avg_first fl ms (jerk_values ms);
          avg_jerk_last = avg_last fl ms (jerk_values ms)
      in if avg_jerk_first > 0
         then fl_div fl (fl_sub fl avg_jerk_last avg_jerk_first) avg_jerk_first else 0)"

definition avg_shaky_first :: "float_ops \<Rightarrow> rep_metrics list \<Rightarrow> real" where
  "avg_shaky_first fl ms = (if has_shakiness ms then avg_first fl ms (shakiness_vals ms) else 0)"

definition avg_shaky_last :: "float_ops \<Rightarrow> rep_metrics list \<Rightarrow> real" where
  "avg_shaky_last fl ms = (if has_shakiness ms then avg_last fl ms (shakiness_vals ms) else 0)"

definition I_S :: "float_ops \<Rightarrow> rep_metrics list \<Rightarrow> real" where
  "I_S fl ms =
     (if has_shakiness ms then
        (if avg_shaky_first fl ms > 0
         then fl_div fl (fl_sub fl (avg_shaky_last fl ms) (avg_shaky_first fl ms))
                (avg_shaky_first fl ms)
         else 0)
      else 0)"

text \<open>
  The composite, lines 473 to 505. The sum of the four weighted indicators is evaluated
  from left to right.
\<close>

definition fatigue_raw :: "float_ops \<Rightarrow> rep_metrics list \<Rightarrow> real" where
  "fatigue_raw fl ms =
     (let D_omega_clamped = max 0 (D_omega fl ms);
          I_T_clamped = max 0 (I_T fl ms);
          I_J_clamped = max 0 (I_J fl ms);
          I_S_clamped = max 0 (I_S fl ms);
          fatigue_raw =
            fl_add fl
              (fl_add fl
                 (fl_add fl (fl_mul fl (fl_lit fl 0.35) D_omega_clamped)
                            (fl_mul fl (fl_lit fl 0.25) I_T_clamped))
                 (fl_mul fl (fl_lit fl 0.20) I_J_clamped))
              (fl_mul fl (fl_lit fl 0.20) I_S_clamped);
          worst_indicator = max D_omega_clamped (max I_T_clamped (max I_J_clamped I_S_clamped))
      in if worst_indicator > fl_lit fl 0.40
         then (let boost = fl_mul fl (fl_sub fl worst_indicator (fl_lit fl 0.40)) (fl_lit fl 0.5)
               in min 1 (fl_add fl fatigue_raw boost))
         else fatigue_raw)"

definition fatigue_score :: "float_ops \<Rightarrow> rep_metrics list \<Rightarrow> real" where
  "fatigue_score fl ms = min 100 (fl_mul fl (fatigue_raw fl ms) 100)"

definition fatigue_level :: "float_ops \<Rightarrow> rep_metrics list \<Rightarrow> string" where
  "fatigue_level fl ms =
     (if fatigue_score fl ms < 10 then ''minimal''
      else if fatigue_score fl ms < 20 then ''low''
      else if fatigue_score fl ms < 35 then ''moderate''
      else if fatigue_score fl ms < 55 then ''high''
      else ''severe'')"

text \<open>Trends, lines 511 to 526.\<close>

definition rep_indices :: "rep_metrics list \<Rightarrow> real list" where
  "rep_indices ms = map real [0..<length ms]"

definition get_trend :: "float_ops \<Rightarrow> rep_metrics list \<Rightarrow> real list \<Rightarrow> real" where
  "get_trend fl ms values =
     (if length values < 2 \<or> fl_std fl values = 0 then 0
      else (let slope = fl_slope fl (rep_indices ms) values
            in if fl_mean fl values \<noteq> 0
               then fl_mul fl (fl_div fl slope (fl_mean fl values)) 100 else 0))"

text \<open>Consistency, lines 532 to 552.\<close>

definition get_consistency :: "float_ops \<Rightarrow> real list \<Rightarrow> real" where
  "get_consistency fl values =
     (if length values < 2 \<or> fl_mean fl values = 0 then 0
      else (let cv = fl_div fl (fl_std fl values) (fl_mean fl values);
                consistency = max 0 (fl_sub fl 100 (fl_mul fl cv 333))
            in min 100 consistency))"

definition consistency_score :: "float_ops \<Rightarrow> rep_metrics list \<Rightarrow> real" where
  "consistency_score fl ms =
     fl_mean fl [get_consistency fl (roms ms), get_consistency fl (smoothness ms),
                 get_consistency fl (durations ms), get_consistency fl (peaks ms)]"

text \<open>Early against late, lines 558 to 601.\<close>

definition pct_change :: "float_ops \<Rightarrow> real \<Rightarrow> real \<Rightarrow> real" where
  "pct_change fl first_v last_v =
     (if first_v > 0 then fl_mul fl (fl_div fl (fl_sub fl last_v first_v) first_v) 100 else 0)"

definition pct_drop :: "float_ops \<Rightarrow> real \<Rightarrow> real \<Rightarrow> real" where
  "pct_drop fl first_v last_v =
     (if first_v > 0 then fl_mul fl (fl_div fl (fl_sub fl first_v last_v) first_v) 100 else 0)"

definition avg_rom_first :: "float_ops \<Rightarrow> rep_metrics list \<Rightarrow> real" where
  "avg_rom_first fl ms =
     (if has_rom_degrees ms then avg_first fl ms (column ms ''rom_degrees'' 0)
      else avg_first fl ms (column ms ''rom'' 0))"

definition avg_rom_last :: "float_ops \<Rightarrow> rep_metrics list \<Rightarrow> real" where
  "avg_rom_last fl ms =
     (if has_rom_degrees ms then avg_last fl ms (column ms ''rom_degrees'' 0)
      else avg_last fl ms (column ms ''rom'' 0))"

definition rom_change_pct :: "float_ops \<Rightarrow> rep_metrics list \<Rightarrow> real" where
  "rom_change_pct fl ms = pct_change fl (avg_rom_first fl ms) (avg_rom_last fl ms)"

definition smoothness_degradation :: "float_ops \<Rightarrow> rep_metrics list \<Rightarrow> real" where
  "smoothness_degradation fl ms =
     pct_drop fl (avg_first fl ms (smoothness ms)) (avg_last fl ms (smoothness ms))"

definition duration_increase :: "float_ops \<Rightarrow> rep_metrics list \<Rightarrow> real" where
  "duration_increase fl ms =
     pct_change fl (avg_first fl ms (durations ms)) (avg_last fl ms (durations ms))"

definition avg_gyro_first_val :: "float_ops \<Rightarrow> rep_metrics list \<Rightarrow> real" where
  "avg_gyro_first_val fl ms = (if has_gyro ms then avg_first fl ms (gyro_peaks ms) else 0)"

definition avg_gyro_last_val :: "float_ops \<Rightarrow> rep_metrics list \<Rightarrow> real" where
  "avg_gyro_last_val fl ms = (if has_gyro ms then avg_last fl ms (gyro_peaks ms) else 0)"

definition gyro_change_pct :: "float_ops \<Rightarrow> rep_metrics list \<Rightarrow> real" where
  "gyro_change_pct fl ms =
     (if has_gyro ms then pct_change fl (avg_gyro_first_val fl ms) (avg_gyro_last_val fl ms)
      else 0)"

definition jerk_increase_pct :: "float_ops \<Rightarrow> rep_metrics list \<Rightarrow> real" where
  "jerk_increase_pct fl ms =
     pct_change fl (avg_first fl ms (jerk_values ms)) (avg_last fl ms (jerk_values ms))"

definition shakiness_increase_pct :: "float_ops \<Rightarrow> rep_metrics list \<Rightarrow> real" where
  "shakiness_increase_pct fl ms =
     (if has_shakiness ms then pct_change fl (avg_shaky_first fl ms) (avg_shaky_last fl ms)
      else 0)"

definition peak_degradation :: "float_ops \<Rightarrow> rep_metrics list \<Rightarrow> real" where
  "peak_degradation fl ms =
     pct_drop fl (avg_first fl ms (peaks ms)) (avg_last fl ms (peaks ms))"

definition early_vs_late :: "float_ops \<Rightarrow> rep_metrics list \<Rightarrow> (string \<times> pyval) list" where
  "early_vs_late fl ms =
     [(''rom_change_percent'', Num (fl_round fl (rom_change_pct fl ms) 1)),
      (''smoothness_degradation_percent'', Num (fl_round fl (smoothness_degradation fl ms) 1)),
      (''duration_increase_percent'', Num (fl_round fl (duration_increase fl ms) 1)),
      (''peak_degradation_percent'', Num (fl_round fl (peak_degradation fl ms) 1)),
      (''gyro_peak_change_percent'', Num (fl_round fl (gyro_change_pct fl ms) 1)),
      (''jerk_increase_percent'', Num (fl_round fl (jerk_increase_pct fl ms) 1)),
      (''shakiness_increase_percent'', Num (fl_round fl (shakiness_increase_pct fl ms) 1)),
      (''avg_gyro_peak_first'', Num (fl_round fl (avg_gyro_first_val fl ms) 4)),
      (''avg_gyro_peak_last'', Num (fl_round fl (avg_gyro_last_val fl ms) 4)),
      (''avg_shakiness_first'', Num (fl_round fl (avg_shaky_first fl ms) 4)),
      (''avg_shakiness_last'', Num (fl_round fl (avg_shaky_last fl ms) 4)),
      (''avg_rom_first'', Num (fl_round fl (avg_rom_first fl ms) 2)),
      (''avg_rom_last'', Num (fl_round fl (avg_rom_last fl ms) 2)),
      (''avg_smoothness_first'', Num (fl_round fl (avg_first fl ms (smoothness ms)) 1)),
      (''avg_smoothness_last'', Num (fl_round fl (avg_last fl ms (smoothness ms)) 1)),
      (''avg_duration_first_ms'', Num (fl_round fl (avg_first fl ms (durations ms)) 0)),
      (''avg_duration_last_ms'', Num (fl_round fl (avg_last fl ms (durations ms)) 0))]"

text \<open>
  The report, lines 607 to 693. A formatted string \<open>f"... {v:.1f} ..."\<close> is kept as its
  template and the values it formats; the pictographs and dashes of the source's messages
  are left out of the templates.
\<close>

definition get_session_quality :: "real \<Rightarrow> string" where
  "get_session_quality score =
     (if score < 10 then ''Excellent''
      else if score < 20 then ''Good''
      else if score < 35 then ''Fair''
      else if score < 55 then ''Poor''
      else ''Very Poor'')"

definition get_consistency_rating :: "real \<Rightarrow> string" where
  "get_consistency_rating score =
     (if score \<ge> 70 then ''Good'' else if score \<ge> 50 then ''Fair'' else ''Poor'')"

definition key_findings :: "float_ops \<Rightarrow> rep_metrics list \<Rightarrow> pyval list" where
  "key_findings fl ms =
     (let findings =
        (if fatigue_score fl ms < 10
           then [FStr ''Excellent fatigue resistance - stable speed and jerk throughout'' []]
         else if fatigue_score fl ms > 45
           then [FStr ''Significant fatigue detected - movement quality degraded notably'' []]
         else [])
        @ (if has_gyro ms \<and> D_omega fl ms > fl_lit fl 0.15 then
             (if gyro_direction fl ms = ''surge''
              then [FStr ''Peak angular velocity SURGED {:.1f}% - compensatory swinging''
                      [fl_mul fl (D_omega fl ms) 100]]
              else [FStr ''Peak angular velocity dropped {:.1f}% - muscles slowing''
                      [fl_mul fl (D_omega fl ms) 100]])
           else if has_gyro ms \<and> D_omega fl ms < fl_lit fl 0.05
             then [FStr ''Angular velocity stable (only {:.1f}% change)''
                     [fl_mul fl (D_omega fl ms) 100]]
           else [])
        @ (if has_shakiness ms \<and> I_S fl ms > fl_lit fl 0.20
             then [FStr ''Within-rep shakiness increased {:.1f}% - losing motor control''
                     [fl_mul fl (I_S fl ms) 100]]
           else if has_shakiness ms \<and> I_S fl ms < fl_lit fl 0.05
             then [FStr ''Movement shakiness stable throughout session'' []]
           else [])
        @ (if I_T fl ms > fl_lit fl 0.15
             then [FStr ''Rep duration increased {:.1f}% - slowing down''
                     [fl_mul fl (I_T fl ms) 100]]
           else [])
        @ (if I_J fl ms > fl_lit fl 0.20
             then [FStr ''Jerk increased {:.1f}% - movement becoming less smooth''
                     [fl_mul fl (I_J fl ms) 100]]
           else [])
        @ (if consistency_score fl ms > 85
             then [FStr ''Highly consistent, controlled movements'' []]
           else if consistency_score fl ms < 60
             then [FStr ''High variability - erratic rep execution'' []]
           else [])
        @ (if rom_change_pct fl ms < -20
             then [FStr ''ROM decreased by {:.1f}% (early vs late reps) - losing range''
                     [\<bar>rom_change_pct fl ms\<bar>]]
           else if rom_change_pct fl ms > 20
             then [FStr ''ROM increased by {:.1f}% (early vs late reps) - possible compensatory swinging''
                     [rom_change_pct fl ms]]
           else [])
      in if findings = []
         then [FStr ''Moderate performance with mixed indicators'' []]
         else findings)"

definition performance_report :: "float_ops \<Rightarrow> rep_metrics list \<Rightarrow> (string \<times> pyval) list" where
  "performance_report fl ms =
     [(''session_quality'', Str (get_session_quality (fatigue_score fl ms))),
      (''consistency_rating'', Str (get_consistency_rating (consistency_score fl ms))),
      (''fatigue_components'', Dict
         [(''D_omega'', Num (fl_round fl (fl_mul fl (D_omega fl ms) 100) 2)),
          (''I_T'', Num (fl_round fl (fl_mul fl (I_T fl ms) 100) 2)),
          (''I_J'', Num (fl_round fl (fl_mul fl (I_J fl ms) 100) 2)),
          (''I_S'', Num (fl_round fl (fl_mul fl (I_S fl ms) 100) 2)),
          (''gyro_direction'', Str (gyro_direction fl ms)),
          (''formula'', Str ''F = 0.35*D_w + 0.25*I_T + 0.20*I_J + 0.20*I_S'')]),
      (''trend_analysis'', Dict
         [(''rom_trend_percent_per_rep'', Num (fl_round fl (get_trend fl ms (roms ms)) 2)),
          (''smoothness_trend_percent_per_rep'',
             Num (fl_round fl (get_trend fl ms (smoothness ms)) 2)),
          (''duration_trend_percent_per_rep'',
             Num (fl_round fl (get_trend fl ms (durations ms)) 2)),
          (''peak_trend_percent_per_rep'', Num (fl_round fl (get_trend fl ms (peaks ms)) 2))]),
      (''consistency_breakdown'', Dict
         [(''rom_consistency'', Num (fl_round fl (get_consistency fl (roms ms)) 1)),
          (''smoothness_consistency'', Num (fl_round fl (get_consistency fl (smoothness ms)) 1)),
          (''duration_consistency'', Num (fl_round fl (get_consistency fl (durations ms)) 1)),
          (''peak_consistency'', Num (fl_round fl (get_consistency fl (peaks ms)) 1))]),
      (''key_findings'', PyList (key_findings fl ms))]"

text \<open>
  The function itself. Below three reps it returns the literal dictionary of lines 347 to
  393. The \<open>except\<close> branch of lines 742 to 794 is entered when an element of the list is
  not a dictionary or a value is not a number; the types of the model exclude both.
\<close>

definition insufficient_data :: "nat \<Rightarrow> (string \<times> pyval) list" where
  "insufficient_data n =
     [(''fatigue_score'', Num 0),
      (''fatigue_level'', Str ''insufficient_data''),
      (''D_omega'', Num 0),
      (''I_T'', Num 0),
      (''I_J'', Num 0),
      (''I_S'', Num 0),
      (''gyro_direction'', Str ''stable''),
      (''consistency_score'', Num 0),
      (''rom_trend'', Num 0),
      (''smoothness_trend'', Num 0),
      (''duration_trend'', Num 0),
      (''peak_trend'', Num 0),
      (''rom_consistency'', Num 0),
      (''smoothness_consistency'', Num 0),
      (''duration_consistency'', Num 0),
      (''peak_consistency'', Num 0),
      (''rom_change_percent'', Num 0),
      (''smoothness_degradation_percent'', Num 0),
      (''early_vs_late'', Dict
         [(''rom_change_percent'', Num 0),
          (''smoothness_degradation_percent'', Num 0),
          (''duration_increase_percent'', Num 0),
          (''peak_degradation_percent'', Num 0),
          (''gyro_peak_change_percent'', Num 0),
          (''jerk_increase_percent'', Num 0),
          (''shakiness_increase_percent'', Num 0),
          (''avg_gyro_peak_first'', Num 0),
          (''avg_gyro_peak_last'', Num 0),
          (''avg_shakiness_first'', Num 0),
          (''avg_shakiness_last'', Num 0),
          (''avg_rom_first'', Num 0),
          (''avg_rom_last'', Num 0),
          (''avg_smoothness_first'', Num 0),
          (''avg_smoothness_last'', Num 0),
          (''avg_duration_first_ms'', Num 0),
          (''avg_duration_last_ms'', Num 0)]),
      (''performance_report'', Dict
         [(''session_quality'', Str ''Insufficient Data''),
          (''consistency_rating'', Str ''Unknown''),
          (''key_findings'', PyList [FStr ''Need at least 3 reps for analysis'' []])]),
      (''n_reps_analyzed'', Num (real n))]"

definition compute_fatigue_indicators :: "float_ops \<Rightarrow> rep_metrics list \<Rightarrow> (string \<times> pyval) list" where
  "compute_fatigue_indicators fl rep_metrics_list =
     (if length rep_metrics_list < 3 then insufficient_data (length rep_metrics_list)
      else
        (let ms = rep_metrics_list in
         [(''fatigue_score'', Num (fl_round fl (fatigue_score fl ms) 1)),
          (''fatigue_level'', Str (fatigue_level fl ms)),
          (''D_omega'', Num (fl_round fl (D_omega fl ms) 4)),
          (''I_T'', Num (fl_round fl (I_T fl ms) 4)),
          (''I_J'', Num (fl_round fl (I_J fl ms) 4)),
          (''I_S'', Num (fl_round fl (I_S fl ms) 4)),
          (''gyro_direction'', Str (gyro_direction fl ms)),
          (''has_gyro'', Bool (has_gyro ms)),
          (''consistency_score'', Num (fl_round fl (consistency_score fl ms) 1)),
          (''rom_trend'', Num (fl_round fl (get_trend fl ms (roms ms)) 2)),
          (''smoothness_trend'', Num (fl_round fl (get_trend fl ms (smoothness ms)) 2)),
          (''duration_trend'', Num (fl_round fl (get_trend fl ms (durations ms)) 2)),
          (''peak_trend'', Num (fl_round fl (get_trend fl ms (peaks ms)) 2)),
          (''gyro_trend'',
             Num (fl_round fl (if has_gyro ms then get_trend fl ms (gyro_peaks ms) else 0) 2)),
          (''rom_consistency'', Num (fl_round fl (get_consistency fl (roms ms)) 1)),
          (''smoothness_consistency'', Num (fl_round fl (get_consistency fl (smoothness ms)) 1)),
          (''duration_consistency'', Num (fl_round fl (get_consistency fl (durations ms)) 1)),
          (''peak_consistency'', Num (fl_round fl (get_consistency fl (peaks ms)) 1)),
          (''gyro_consistency'',
             Num (if has_gyro ms then fl_round fl (get_consistency fl (gyro_peaks ms)) 1 else 0)),
          (''rom_change_percent'', Num (fl_round fl (rom_change_pct fl ms) 1)),
          (''smoothness_degradation_percent'',
             Num (fl_round fl (smoothness_degradation fl ms) 1)),
          (''early_vs_late'', Dict (early_vs_late fl ms)),
          (''performance_report'', Dict (performance_report fl ms)),
          (''n_reps_analyzed'', Num (real (length ms)))]))"

text \<open>
  The numbers stored in a returned dictionary, nested dictionaries included, each with the
  path of keys that leads to it.
\<close>

fun numeric_fields :: "string list \<Rightarrow> (string \<times> pyval) list \<Rightarrow> (string list \<times> real) list" where
  "numeric_fields path [] = []"
| "numeric_fields path ((k, Num x) # kvs) = (path @ [k], x) # numeric_fields path kvs"
| "numeric_fields path ((k, Dict d) # kvs) =
     numeric_fields (path @ [k]) d @ numeric_fields path kvs"
| "numeric_fields path ((k, v) # kvs) = numeric_fields path kvs"

text \<open>
  The arithmetic of the reals: every operation is exact, a literal is its decimal value,
  the mean and the population standard deviation are those of the first section, the slope
  is the ordinary least-squares slope, and rounding is to the nearest multiple of
  \<open>10^-ndigits\<close>, ties to even.
\<close>

definition linregress_slope :: "real list \<Rightarrow> real list \<Rightarrow> real" where
  "linregress_slope xs ys =
     (let xm = np_mean xs; ym = np_mean ys
      in sum_list (map (\<lambda>(x, y). (x - xm) * (y - ym)) (zip xs ys))
         / sum_list (map (\<lambda>x. (x - xm)\<^sup>2) xs))"

definition exact_arith :: float_ops where
  "exact_arith =
     \<lparr>fl_add = (\<lambda>a b. a + b), fl_sub = (\<lambda>a b. a - b), fl_mul = (\<lambda>a b. a * b),
      fl_div = (\<lambda>a b. a / b), fl_lit = (\<lambda>x. x), fl_mean = np_mean, fl_std = np_std,
      fl_slope = linregress_slope, fl_round = py_round\<rparr>"

text \<open>
  Three facts of double arithmetic that the properties below rely on. A sum or a product
  of two numbers that are not negative is not negative, a difference \<open>a - b\<close> with
  \<open>b \<le> a\<close> is not negative, and a literal that is not negative has a value that is not
  negative.
\<close>

definition sign_preserving :: "float_ops \<Rightarrow> bool" where
  "sign_preserving fl =
     ((\<forall>a b. 0 \<le> a \<and> 0 \<le> b \<longrightarrow> 0 \<le> fl_add fl a b \<and> 0 \<le> fl_mul fl a b)
      \<and> (\<forall>a b. b \<le> a \<longrightarrow> 0 \<le> fl_sub fl a b)
      \<and> (\<forall>x. 0 \<le> x \<longrightarrow> 0 \<le> fl_lit fl x))"

text \<open>
  Operations on 0 are exact: \<open>0 / x\<close> for \<open>x\<close> not 0 and \<open>0 * x\<close> are 0, \<open>100 - 0\<close> is 100,
  and the mean of an array of zeros is 0.
\<close>

definition exact_at_zero :: "float_ops \<Rightarrow> bool" where
  "exact_at_zero fl =
     ((\<forall>x. x \<noteq> 0 \<longrightarrow> fl_div fl 0 x = 0)
      \<and> (\<forall>x. fl_mul fl 0 x = 0)
      \<and> fl_sub fl 100 0 = 100
      \<and> (\<forall>vs. vs \<noteq> [] \<and> (\<forall>v \<in> set vs. v = 0) \<longrightarrow> fl_mean fl vs = 0))"

text \<open>
  Two sessions of three reps. In the first only the duration grows, from 10000 ms to
  13984 ms; in the second only the gyroscope peak grows, from 100 to 200.
\<close>

definition session_slowing :: "rep_metrics list" where
  "session_slowing =
     [[''duration_ms'' \<mapsto> 10000], [''duration_ms'' \<mapsto> 10000], [''duration_ms'' \<mapsto> 13984]]"

definition session_surge :: "rep_metrics list" where
  "session_surge = [[''gyro_peak'' \<mapsto> 100], [''gyro_peak'' \<mapsto> 100], [''gyro_peak'' \<mapsto> 200]]"

text \<open>
  A session of four reps whose range of motion and peak are constant and whose duration
  alternates between 990 ms and 1010 ms.
\<close>

definition session_steady :: "rep_metrics list" where
  "session_steady =
     [[''duration_ms'' \<mapsto> 990, ''rom_degrees'' \<mapsto> 90, ''peak'' \<mapsto> 5],
      [''duration_ms'' \<mapsto> 1010, ''rom_degrees'' \<mapsto> 90, ''peak'' \<mapsto> 5],
      [''duration_ms'' \<mapsto> 990, ''rom_degrees'' \<mapsto> 90, ''peak'' \<mapsto> 5],
      [''duration_ms'' \<mapsto> 1010, ''rom_degrees'' \<mapsto> 90, ''peak'' \<mapsto> 5]]"

section \<open>Peak detection: \<open>scipy.signal.find_peaks\<close>\<close>

text \<open>
  The scripts call the library function \<open>find_peaks(x, distance, prominence)\<close>. It is not
  part of the repository, so every definition below that calls it takes the detector as
  a parameter \<open>fp\<close>, and the properties proved hold for any detector. A call with a
  \<open>distance\<close> below 1 raises \<open>ValueError\<close> in the library; the callers model that check.
\<close>

type_synonym peak_finder = "real list \<Rightarrow> nat option \<Rightarrow> real \<Rightarrow> nat list"

datatype py_error = IndexError | ValueError | OverflowError | KeyError

text \<open>
  To run the definitions on concrete signals, \<open>find_peaks\<close> is a model of the library's
  algorithm for these two arguments: the strict local maxima of the interior (a flat top
  counts once, at its middle sample), thinned so that no two kept peaks are closer than
  \<open>distance\<close> samples (higher peaks win), then filtered by prominence: the height of the
  peak above the higher of the two lowest points reached on either side before a higher
  sample or the end of the signal.
\<close>

definition plateau_end :: "real list \<Rightarrow> nat \<Rightarrow> nat" where
  "plateau_end x i = Suc i + length (takeWhile (\<lambda>u. u = x ! i) (drop (Suc i) (butlast x)))"

definition local_maxima :: "real list \<Rightarrow> nat list" where
  "local_maxima x =
     concat (map (\<lambda>i. if x ! (i - 1) < x ! i \<and> x ! plateau_end x i < x ! i
                        then [(i + (plateau_end x i - 1)) div 2] else [])
                 [1..<length x - 1])"

fun select_by_peak_distance :: "nat list \<Rightarrow> nat list \<Rightarrow> nat \<Rightarrow> bool list \<Rightarrow> bool list" where
  "select_by_peak_distance [] pks d keep = keep"
| "select_by_peak_distance (j # js) pks d keep =
     (if keep ! j
      then select_by_peak_distance js pks d
             (map (\<lambda>k. if k \<noteq> j \<and> (if pks ! k < pks ! j then pks ! j - pks ! k
                                         else pks ! k - pks ! j) < d
                         then False else keep ! k)
                  [0..<length pks])
      else select_by_peak_distance js pks d keep)"

definition peak_prominence :: "real list \<Rightarrow> nat \<Rightarrow> real" where
  "peak_prominence x p =
     (let left_min = foldr min (takeWhile (\<lambda>v. v \<le> x ! p) (rev (take (Suc p) x))) (x ! p);
          right_min = foldr min (takeWhile (\<lambda>v. v \<le> x ! p) (drop p x)) (x ! p)
      in x ! p - max left_min right_min)"

definition find_peaks :: peak_finder where
  "find_peaks x distance prominence =
     (let pks = local_maxima x;
          pks = (case distance of
                   None \<Rightarrow> pks
                 | Some d \<Rightarrow>
                     (let order = rev (sort_key (\<lambda>j. x ! (pks ! j)) [0..<length pks]);
                          keep = select_by_peak_distance order pks d (map (\<lambda>_. True) pks)
                      in map fst (filter snd (zip pks keep))))
      in filter (\<lambda>p. prominence \<le> peak_prominence x p) pks)"

section \<open>Smoothness of one rep: \<open>compute_ldlj\<close>\<close>

text \<open>
  \<open>scripts/performance_visualizer.py\<close>, lines 181 to 279. numpy helpers first: \<open>np.diff\<close>,
  and an elementwise operation on two one-dimensional arrays, which numpy broadcasts when
  one of them has length 1 and refuses (\<open>ValueError\<close>) when the lengths differ otherwise.
\<close>

definition np_diff :: "real list \<Rightarrow> real list" where
  "np_diff xs = map (\<lambda>(a, b). b - a) (zip xs (tl xs))"

definition np_binop :: "(real \<Rightarrow> real \<Rightarrow> real) \<Rightarrow> real list \<Rightarrow> real list \<Rightarrow> py_error + real list" where
  "np_binop f xs ys =
     (if length xs = length ys then Inr (map (\<lambda>(a, b). f a b) (zip xs ys))
      else if length xs = 1 then Inr (map (\<lambda>b. f (hd xs) b) ys)
      else if length ys = 1 then Inr (map (\<lambda>a. f a (hd ys)) xs)
      else Inl ValueError)"

definition accel_magnitude :: "real list \<Rightarrow> real list \<Rightarrow> real list \<Rightarrow> py_error + real list" where
  "accel_magnitude accel_x accel_y accel_z =
     (case np_binop (+) (map (\<lambda>v. v\<^sup>2) accel_x) (map (\<lambda>v. v\<^sup>2) accel_y) of
        Inl e \<Rightarrow> Inl e
      | Inr xy \<Rightarrow>
          (case np_binop (+) xy (map (\<lambda>v. v\<^sup>2) accel_z) of
             Inl e \<Rightarrow> Inl e
           | Inr xyz \<Rightarrow> Inr (map sqrt xyz)))"

text \<open>
  The scores computed from the chosen signal, lines 219 to 276: the part after the
  signal has been selected, where nothing can raise. The range of motion, the normalised
  jerk, the rate of direction changes and the excess peaks are the source's three
  metrics, each a definition of its own.
\<close>

definition ldlj_rom :: "real list \<Rightarrow> real" where
  "ldlj_rom signal =
     (let rom = Max (set signal) - Min (set signal) in if rom < 0.1 then 0.1 else rom)"

definition ldlj_velocity :: "real list \<Rightarrow> real \<Rightarrow> real list" where
  "ldlj_velocity signal dt = map (\<lambda>v. v / dt) (np_diff signal)"

definition ldlj_normalized_jerk :: "real list \<Rightarrow> real \<Rightarrow> real" where
  "ldlj_normalized_jerk signal dt =
     (let velocity = ldlj_velocity signal dt;
          jerk = (if length velocity > 1 then map (\<lambda>v. \<bar>v / dt\<bar>) (np_diff velocity) else [0]);
          mean_jerk = (if length jerk > 0 then np_mean jerk else 0)
      in mean_jerk / ldlj_rom signal)"

definition ldlj_direction_rate :: "real list \<Rightarrow> real \<Rightarrow> real \<Rightarrow> real" where
  "ldlj_direction_rate signal duration dt =
     (let sign_changes = np_diff (map sgn (ldlj_velocity signal dt));
          direction_changes = length (filter (\<lambda>c. c \<noteq> 0) sign_changes)
      in if duration > 0 then real direction_changes / duration else 0)"

definition ldlj_excess_peaks :: "peak_finder \<Rightarrow> real list \<Rightarrow> int" where
  "ldlj_excess_peaks fp signal =
     (let prominence = ldlj_rom signal * 0.05;
          pks = fp signal None prominence;
          valleys = fp (map uminus signal) None prominence;
          total_peaks = length pks + length valleys
      in max 0 (int total_peaks - 2))"

definition ldlj_scores :: "peak_finder \<Rightarrow> real list \<Rightarrow> real \<Rightarrow> real \<Rightarrow> real \<times> real" where
  "ldlj_scores fp signal duration dt =
     (let jerk_contrib = min 40 (max 0 (ldlj_normalized_jerk signal dt - 1.5) * 13.3);
          dir_contrib = min 35 (max 0 (ldlj_direction_rate signal duration dt - 0.5) * 10);
          peaks_contrib = min 25 (real_of_int (ldlj_excess_peaks fp signal) * 3.3);
          irregularity_score = jerk_contrib + dir_contrib + peaks_contrib;
          smoothness_score = max 0 (min 100 (100 - irregularity_score))
      in (irregularity_score, smoothness_score))"

text \<open>
  The body of the \<open>try\<close> block. \<open>timestamps_ms[-1]\<close> raises \<open>IndexError\<close> on an empty
  array; the magnitude raises \<open>ValueError\<close> when the three axes cannot be broadcast.
\<close>

definition compute_ldlj_try ::
  "peak_finder \<Rightarrow> real list \<Rightarrow> real list \<Rightarrow> real list \<Rightarrow> real list \<Rightarrow> real list option
     \<Rightarrow> py_error + real \<times> real" where
  "compute_ldlj_try fp accel_x accel_y accel_z timestamps_ms filtered_mag =
     (if length accel_x < 4 then Inr (0, 50)
      else if timestamps_ms = [] then Inl IndexError
      else
        (let duration = (last timestamps_ms - hd timestamps_ms) / 1000.0 in
         if duration \<le> 0 then Inr (0, 50)
         else
           (let dt = duration / (real (length timestamps_ms) - 1) in
            case (case filtered_mag of
                    Some fm \<Rightarrow> if length fm = length accel_x then Inr fm
                               else accel_magnitude accel_x accel_y accel_z
                  | None \<Rightarrow> accel_magnitude accel_x accel_y accel_z) of
              Inl e \<Rightarrow> Inl e
            | Inr signal \<Rightarrow> Inr (ldlj_scores fp signal duration dt))))"

text \<open>The function: \<open>except Exception: return 0, 50\<close>.\<close>

definition compute_ldlj ::
  "peak_finder \<Rightarrow> real list \<Rightarrow> real list \<Rightarrow> real list \<Rightarrow> real list \<Rightarrow> real list option
     \<Rightarrow> real \<times> real" where
  "compute_ldlj fp accel_x accel_y accel_z timestamps_ms filtered_mag =
     (case compute_ldlj_try fp accel_x accel_y accel_z timestamps_ms filtered_mag of
        Inl e \<Rightarrow> (0, 50)
      | Inr r \<Rightarrow> r)"

section \<open>Concentric and eccentric phases: \<open>extract_features_per_rep\<close>\<close>



text \<open>\<open>np.argmax\<close>: the first index of the largest value.\<close>

definition np_argmax :: "real list \<Rightarrow> nat" where
  "np_argmax xs = length (takeWhile (\<lambda>v. v \<noteq> Max (set xs)) xs)"











section \<open>Segmentation into reps: \<open>resegment_single_source\<close>\<close>

text \<open>
  \<open>scripts/resegment_reps_fixed.py\<close>, lines 270 to 615. The data frame is read through
  three columns: the timestamps, the signal column and, when present, the externally
  assigned \<open>rep\<close> column; all columns of a frame have the same length, and rows are
  addressed by position (the default index). The exercise is the name the function
  detects from the file name in lines 288 to 305. The smoothing filter
  \<open>savgol_filter(x, window_length, polyorder=3)\<close> is a library function and a parameter,
  like the peak detector.
\<close>

datatype exercise =
    CONCENTRATION_CURLS | OVERHEAD_EXTENSION | BENCH_PRESS | BACK_SQUAT
  | LATERAL_PULLDOWN | SEATED_LEG_EXTENSION | UNKNOWN

definition weight_stack :: "exercise \<Rightarrow> bool" where
  "weight_stack ex = (ex = LATERAL_PULLDOWN \<or> ex = SEATED_LEG_EXTENSION)"

record profile =
  prominence_factor :: real
  std_factor :: real
  min_prominence_floor :: real
  min_rep_duration_ms :: real
  max_rep_duration_ms :: real

text \<open>Lines 334 to 390; the two durations are the arguments of the function.\<close>

fun exercise_profile :: "exercise \<Rightarrow> real \<Rightarrow> real \<Rightarrow> profile" where
  "exercise_profile CONCENTRATION_CURLS mn mx =
     \<lparr>prominence_factor = 0.1, std_factor = 0.5, min_prominence_floor = 0.1,
      min_rep_duration_ms = max mn 800, max_rep_duration_ms = min mx 8000\<rparr>"
| "exercise_profile OVERHEAD_EXTENSION mn mx =
     \<lparr>prominence_factor = 0.1, std_factor = 0.5, min_prominence_floor = 0.1,
      min_rep_duration_ms = max mn 800, max_rep_duration_ms = min mx 8000\<rparr>"
| "exercise_profile BENCH_PRESS mn mx =
     \<lparr>prominence_factor = 0.1, std_factor = 0.5, min_prominence_floor = 0.1,
      min_rep_duration_ms = max mn 1000, max_rep_duration_ms = min mx 10000\<rparr>"
| "exercise_profile BACK_SQUAT mn mx =
     \<lparr>prominence_factor = 0.1, std_factor = 0.5, min_prominence_floor = 0.1,
      min_rep_duration_ms = max mn 1200, max_rep_duration_ms = min mx 12000\<rparr>"
| "exercise_profile LATERAL_PULLDOWN mn mx =
     \<lparr>prominence_factor = 0.05, std_factor = 0.3, min_prominence_floor = 0.05,
      min_rep_duration_ms = max mn 1500, max_rep_duration_ms = min mx 12000\<rparr>"
| "exercise_profile SEATED_LEG_EXTENSION mn mx =
     \<lparr>prominence_factor = 0.05, std_factor = 0.3, min_prominence_floor = 0.05,
      min_rep_duration_ms = max mn 1500, max_rep_duration_ms = min mx 12000\<rparr>"
| "exercise_profile UNKNOWN mn mx =
     \<lparr>prominence_factor = 0.1, std_factor = 0.5, min_prominence_floor = 0.1,
      min_rep_duration_ms = mn, max_rep_duration_ms = mx\<rparr>"

text \<open>Smoothing, lines 402 to 415.\<close>

definition smooth_signal :: "(real list \<Rightarrow> nat \<Rightarrow> real list) \<Rightarrow> exercise \<Rightarrow> real list \<Rightarrow> real list" where
  "smooth_signal savgol ex signal =
     (if weight_stack ex then
        (let n = int (length signal);
             window_length = min 21 (if n mod 2 = 1 then n else n - 1)
         in if window_length \<ge> 5 then savgol signal (nat window_length) else signal)
      else if length signal > 11 then savgol signal 11 else signal)"

text \<open>The adaptive prominence, lines 418 to 422.\<close>

definition adaptive_prominence :: "profile \<Rightarrow> real list \<Rightarrow> real" where
  "adaptive_prominence prof signal_smooth =
     (let signal_range = Max (set signal_smooth) - Min (set signal_smooth);
          signal_std = np_std signal_smooth
      in max (signal_range * prominence_factor prof)
             (max (signal_std * std_factor prof) (min_prominence_floor prof)))"

text \<open>
  The minimum distance between valleys, lines 425 to 436. \<open>int\<close> truncates towards zero.
  A median interval of 0 makes the sample rate infinite, and \<open>int\<close> of it raises
  \<open>OverflowError\<close>.
\<close>

definition np_median :: "real list \<Rightarrow> real" where
  "np_median xs =
     (let s = sort xs; n = length xs
      in if odd n then s ! (n div 2) else (s ! (n div 2 - 1) + s ! (n div 2)) / 2)"

definition py_int :: "real \<Rightarrow> int" where
  "py_int x = (if x \<ge> 0 then \<lfloor>x\<rfloor> else \<lceil>x\<rceil>)"

definition estimate_min_distance :: "exercise \<Rightarrow> real list \<Rightarrow> py_error + int" where
  "estimate_min_distance ex timestamps =
     (if length timestamps > 1 then
        (let median_dt = np_median (np_diff timestamps) in
         if median_dt = 0 then Inl OverflowError
         else (let sample_rate = 1000 / median_dt
               in if weight_stack ex then Inr (py_int (1.5 * sample_rate))
                  else Inr (py_int (0.5 * sample_rate))))
      else Inr 5)"

text \<open>
  The two detector calls. The library raises \<open>ValueError\<close> for a distance below 1.
  \<open>find_valleys\<close>, lines 193 to 209, detects peaks of the negated signal.
\<close>

definition scipy_find_peaks :: "peak_finder \<Rightarrow> real list \<Rightarrow> int \<Rightarrow> real \<Rightarrow> py_error + nat list" where
  "scipy_find_peaks fp x distance prominence =
     (if distance < 1 then Inl ValueError else Inr (fp x (Some (nat distance)) prominence))"

definition find_valleys :: "peak_finder \<Rightarrow> real list \<Rightarrow> int \<Rightarrow> real \<Rightarrow> py_error + nat list" where
  "find_valleys fp signal distance prominence =
     scipy_find_peaks fp (map uminus signal) distance prominence"

text \<open>
  The retries with lower prominence, lines 456 to 462: the loop over the factors keeps
  the last result and stops at the first one with two valleys or more, which also
  replaces the prominence. Then the whole detection, lines 448 to 471, peaks included.
\<close>

fun retry_valleys ::
  "peak_finder \<Rightarrow> real list \<Rightarrow> int \<Rightarrow> real \<Rightarrow> real list \<Rightarrow> nat list \<Rightarrow> py_error + nat list \<times> real" where
  "retry_valleys fp signal_smooth min_distance min_prominence [] valley_indices =
     Inr (valley_indices, min_prominence)"
| "retry_valleys fp signal_smooth min_distance min_prominence (retry_factor # rest) valley_indices =
     (let retry_prominence = min_prominence * retry_factor in
      case find_valleys fp signal_smooth min_distance retry_prominence of
        Inl e \<Rightarrow> Inl e
      | Inr found \<Rightarrow>
          if length found \<ge> 2 then Inr (found, retry_prominence)
          else retry_valleys fp signal_smooth min_distance min_prominence rest found)"

definition detect_valleys ::
  "peak_finder \<Rightarrow> real list \<Rightarrow> int \<Rightarrow> real \<Rightarrow> py_error + nat list \<times> real" where
  "detect_valleys fp signal_smooth min_distance min_prominence =
     (case find_valleys fp signal_smooth min_distance min_prominence of
        Inl e \<Rightarrow> Inl e
      | Inr valley_indices \<Rightarrow>
          if length valley_indices < 2 then
            (case retry_valleys fp signal_smooth min_distance min_prominence
                    [0.5, 0.25, 0.1] valley_indices of
               Inl e \<Rightarrow> Inl e
             | Inr (valley_indices, min_prominence) \<Rightarrow>
                 if length valley_indices < 2 then
                   (case scipy_find_peaks fp signal_smooth min_distance (min_prominence * 0.5) of
                      Inl e \<Rightarrow> Inl e
                    | Inr peak_indices \<Rightarrow>
                        if length peak_indices \<ge> 2 then Inr (peak_indices, min_prominence)
                        else Inr (valley_indices, min_prominence))
                 else Inr (valley_indices, min_prominence))
          else Inr (valley_indices, min_prominence))"

text \<open>
  The duration filter, lines 474 to 483, started with \<open>valid_valleys = [0]\<close>. Reading the
  timestamp of a valley outside the frame raises \<open>IndexError\<close>.
\<close>

fun filter_valleys :: "real list \<Rightarrow> profile \<Rightarrow> nat list \<Rightarrow> nat list \<Rightarrow> py_error + nat list" where
  "filter_valleys timestamps prof valid_valleys [] = Inr valid_valleys"
| "filter_valleys timestamps prof valid_valleys (idx # rest) =
     (if idx \<ge> length timestamps then Inl IndexError
      else
        (let last_valley_time = timestamps ! last valid_valleys;
             current_valley_time = timestamps ! idx;
             duration_ms = current_valley_time - last_valley_time
         in if duration_ms \<ge> min_rep_duration_ms prof \<and> duration_ms \<le> max_rep_duration_ms prof
            then filter_valleys timestamps prof (valid_valleys @ [idx]) rest
            else filter_valleys timestamps prof valid_valleys rest))"

text \<open>The search for a last valley before the end, lines 486 to 496.\<close>

definition add_tail_valley ::
  "peak_finder \<Rightarrow> real list \<Rightarrow> real list \<Rightarrow> profile \<Rightarrow> int \<Rightarrow> real \<Rightarrow> nat list
     \<Rightarrow> py_error + nat list" where
  "add_tail_valley fp timestamps signal_smooth prof min_distance min_prominence valid_valleys =
     (if last valid_valleys \<noteq> length timestamps - 1 then
        (let last_valley_time = timestamps ! last valid_valleys;
             end_time = last timestamps
         in if end_time - last_valley_time \<ge> min_rep_duration_ms prof then
              (let remaining_signal = drop (last valid_valleys) signal_smooth in
               if int (length remaining_signal) > min_distance then
                 (case find_valleys fp remaining_signal (min_distance div 2)
                         (min_prominence * 0.5) of
                    Inl e \<Rightarrow> Inl e
                  | Inr local_valleys \<Rightarrow>
                      if length local_valleys > 0
                      then Inr (valid_valleys @ [last valid_valleys + last local_valleys])
                      else Inr valid_valleys)
               else Inr valid_valleys)
            else Inr valid_valleys)
      else Inr valid_valleys)"

text \<open>
  The fallback on the original rep labels, lines 499 to 534. \<open>original_reps\<close> are the
  positive labels in ascending order. For one label, \<open>guided_valley\<close> is the position of
  the smallest smoothed value in the window around the last row of that label; the window
  reaches \<open>max(int(0.2 * span), 10)\<close> rows to either side, cut at the ends of the frame,
  and is skipped when it has three samples or fewer.
\<close>

definition np_argmin :: "real list \<Rightarrow> nat" where
  "np_argmin xs = length (takeWhile (\<lambda>v. v \<noteq> Min (set xs)) xs)"

definition original_reps :: "int list option \<Rightarrow> int list" where
  "original_reps rep_column =
     (case rep_column of None \<Rightarrow> [] | Some reps \<Rightarrow> sort (remdups (filter (\<lambda>r. r > 0) reps)))"

definition search_window :: "nat list \<Rightarrow> nat" where
  "search_window rep_rows =
     (let rep_end_idx = last rep_rows;
          rep_start_idx = hd rep_rows;
          rep_duration = rep_end_idx - rep_start_idx
      in max (rep_duration div 5) 10)"

definition guided_valley :: "real list \<Rightarrow> nat list \<Rightarrow> nat option" where
  "guided_valley signal_smooth rep_rows =
     (let rep_end_idx = last rep_rows;
          search_start = rep_end_idx - search_window rep_rows;
          search_end = min (length signal_smooth) (rep_end_idx + search_window rep_rows);
          search_signal = take (search_end - search_start) (drop search_start signal_smooth)
      in if length search_signal > 3 then Some (search_start + np_argmin search_signal)
         else None)"

fun guided_loop :: "real list \<Rightarrow> int list \<Rightarrow> int list \<Rightarrow> nat list \<Rightarrow> nat list" where
  "guided_loop signal_smooth reps [] valid_valleys = valid_valleys"
| "guided_loop signal_smooth reps (r # rest) valid_valleys =
     (let rep_rows = filter (\<lambda>i. reps ! i = r) [0..<length reps] in
      if length rep_rows = 0 then guided_loop signal_smooth reps rest valid_valleys
      else
        (case guided_valley signal_smooth rep_rows of
           None \<Rightarrow> guided_loop signal_smooth reps rest valid_valleys
         | Some valley_idx \<Rightarrow>
             if valley_idx > last valid_valleys
             then guided_loop signal_smooth reps rest (valid_valleys @ [valley_idx])
             else guided_loop signal_smooth reps rest valid_valleys))"

definition guided_boundaries :: "real list \<Rightarrow> int list \<Rightarrow> nat list" where
  "guided_boundaries signal_smooth reps =
     (let valid_valleys = guided_loop signal_smooth reps (original_reps (Some reps)) [0]
      in if last valid_valleys < length reps - 1
         then valid_valleys @ [length reps - 1] else valid_valleys)"

text \<open>
  The candidate valleys, lines 399 to 471: the minimum distance, the detected valleys (or
  peaks) and the prominence they were detected with. \<open>np.max\<close> of an empty signal raises
  \<open>ValueError\<close>.
\<close>

definition valley_candidates ::
  "(real list \<Rightarrow> nat \<Rightarrow> real list) \<Rightarrow> peak_finder \<Rightarrow> exercise \<Rightarrow> real list \<Rightarrow> real list
     \<Rightarrow> real \<Rightarrow> real \<Rightarrow> py_error + int \<times> nat list \<times> real" where
  "valley_candidates savgol fp ex timestamps signal mn mx =
     (if signal = [] then Inl ValueError
      else
        (let prof = exercise_profile ex mn mx;
             signal_smooth = smooth_signal savgol ex signal;
             min_prominence = adaptive_prominence prof signal_smooth
         in case estimate_min_distance ex timestamps of
              Inl e \<Rightarrow> Inl e
            | Inr min_distance \<Rightarrow>
                (case detect_valleys fp signal_smooth min_distance min_prominence of
                   Inl e \<Rightarrow> Inl e
                 | Inr (valley_indices, min_prominence) \<Rightarrow>
                     Inr (min_distance, valley_indices, min_prominence))))"

text \<open>The boundaries of the reps, lines 473 to 534.\<close>

definition rep_boundaries ::
  "(real list \<Rightarrow> nat \<Rightarrow> real list) \<Rightarrow> peak_finder \<Rightarrow> exercise \<Rightarrow> real list \<Rightarrow> real list
     \<Rightarrow> int list option \<Rightarrow> real \<Rightarrow> real \<Rightarrow> py_error + nat list" where
  "rep_boundaries savgol fp ex timestamps signal rep_column mn mx =
     (case valley_candidates savgol fp ex timestamps signal mn mx of
        Inl e \<Rightarrow> Inl e
      | Inr (min_distance, valley_indices, min_prominence) \<Rightarrow>
          (let prof = exercise_profile ex mn mx;
               signal_smooth = smooth_signal savgol ex signal
           in case filter_valleys timestamps prof [0] valley_indices of
                Inl e \<Rightarrow> Inl e
              | Inr valid_valleys \<Rightarrow>
                  (case add_tail_valley fp timestamps signal_smooth prof min_distance
                          min_prominence valid_valleys of
                     Inl e \<Rightarrow> Inl e
                   | Inr valid_valleys \<Rightarrow>
                       if length valid_valleys \<le> 1 \<and> length (original_reps rep_column) \<ge> 1
                       then Inr (guided_boundaries signal_smooth (the rep_column))
                       else Inr valid_valleys)))"

text \<open>
  The reps, lines 541 to 613. A rep between two boundaries covers the rows from the
  first boundary up to the row before the second; its end time is the timestamp of that
  last row. \<open>np.argmax\<close> of an empty slice raises \<open>ValueError\<close>. The dictionary of a rep is
  a record; the key \<open>next_rep_start_idx\<close> is absent from the dictionary of the last segment.
\<close>

record rep_info =
  rep :: nat
  start_idx :: nat
  end_idx :: nat
  next_rep_start_idx :: "nat option"
  start_time_ms :: real
  end_time_ms :: real
  duration_ms :: real
  peak_idx :: nat
  peak_time_ms :: real
  peak_value :: real
  valley_value :: real
  amplitude :: real

definition make_rep_info ::
  "real list \<Rightarrow> real list \<Rightarrow> real list \<Rightarrow> nat \<Rightarrow> nat \<Rightarrow> nat \<Rightarrow> nat option \<Rightarrow> rep_info" where
  "make_rep_info timestamps signal signal_smooth rep_num first_row last_row next_start =
     (let start_time = timestamps ! first_row;
          end_time = timestamps ! last_row;
          rep_signal = take (Suc last_row - first_row) (drop first_row signal_smooth);
          peak_local_idx = np_argmax rep_signal;
          peak = first_row + peak_local_idx
      in \<lparr>rep = rep_num, start_idx = first_row, end_idx = last_row,
          next_rep_start_idx = next_start,
          start_time_ms = start_time, end_time_ms = end_time,
          duration_ms = end_time - start_time,
          peak_idx = peak, peak_time_ms = timestamps ! peak,
          peak_value = signal ! peak, valley_value = signal ! first_row,
          amplitude = signal ! peak - signal ! first_row\<rparr>)"

fun build_reps ::
  "real list \<Rightarrow> real list \<Rightarrow> real list \<Rightarrow> nat \<Rightarrow> nat list \<Rightarrow> py_error + rep_info list" where
  "build_reps timestamps signal signal_smooth rep_num (start_i # end_i # rest) =
     (if end_i \<le> start_i then Inl ValueError
      else
        (case build_reps timestamps signal signal_smooth (Suc rep_num) (end_i # rest) of
           Inl e \<Rightarrow> Inl e
         | Inr infos \<Rightarrow>
             Inr (make_rep_info timestamps signal signal_smooth rep_num start_i (end_i - 1) (Some end_i)
                  # infos)))"
| "build_reps timestamps signal signal_smooth rep_num valid_valleys = Inr []"

definition last_segment ::
  "real list \<Rightarrow> real list \<Rightarrow> real list \<Rightarrow> nat list \<Rightarrow> rep_info list" where
  "last_segment timestamps signal signal_smooth valid_valleys =
     (if last valid_valleys < length signal - 1
      then [make_rep_info timestamps signal signal_smooth (length valid_valleys)
              (last valid_valleys) (length signal - 1) None]
      else [])"

text \<open>
  The new \<open>rep\<close> column: 0 everywhere, then the number of each rep written on its rows, in
  the order the reps are created.
\<close>

definition assign_rep :: "nat list \<Rightarrow> rep_info \<Rightarrow> nat list" where
  "assign_rep labels info =
     map (\<lambda>i. if start_idx info \<le> i \<and> i \<le> end_idx info then rep info else labels ! i)
         [0..<length labels]"

definition rep_labels :: "nat \<Rightarrow> rep_info list \<Rightarrow> nat list" where
  "rep_labels n infos = foldl assign_rep (replicate n 0) infos"

text \<open>
  The function. Line 539 reads the timestamps of the first ten boundaries, which raises
  \<open>IndexError\<close> for a boundary outside the frame. Line 543 copies the \<open>rep\<close> column of
  the input and raises \<open>KeyError\<close> when the frame has none.
\<close>

definition resegment_single_source ::
  "(real list \<Rightarrow> nat \<Rightarrow> real list) \<Rightarrow> peak_finder \<Rightarrow> exercise \<Rightarrow> real list \<Rightarrow> real list
     \<Rightarrow> int list option \<Rightarrow> real \<Rightarrow> real \<Rightarrow> py_error + nat list \<times> rep_info list" where
  "resegment_single_source savgol fp ex timestamps signal rep_column mn mx =
     (case rep_boundaries savgol fp ex timestamps signal rep_column mn mx of
        Inl e \<Rightarrow> Inl e
      | Inr valid_valleys \<Rightarrow>
          if \<exists>v \<in> set (take 10 valid_valleys). v \<ge> length timestamps then Inl IndexError
          else if rep_column = None then Inl KeyError
          else
            (let signal_smooth = smooth_signal savgol ex signal in
             case build_reps timestamps signal signal_smooth 1 valid_valleys of
               Inl e \<Rightarrow> Inl e
             | Inr infos \<Rightarrow>
                 (let rep_info = infos @ last_segment timestamps signal signal_smooth valid_valleys
                  in Inr (rep_labels (length signal) rep_info, rep_info))))"

text \<open>
  Frames of ten samples, 250 ms apart, for an unknown exercise and the default durations
  of 800 ms and 8000 ms. None is long enough to be smoothed, so the smoothing filter is
  never called on them; \<open>no_filter\<close> stands in for it.
\<close>

definition no_filter :: "real list \<Rightarrow> nat \<Rightarrow> real list" where
  "no_filter x window_length = x"

definition ts_250 :: "real list" where
  "ts_250 = [0, 250, 500, 750, 1000, 1250, 1500, 1750, 2000, 2250]"

text \<open>A signal with valleys at samples 4 and 8.\<close>

definition signal_two_valleys :: "real list" where
  "signal_two_valleys = [9, 10, 11, 10, 9, 10, 11, 10, 9, 10]"

text \<open>A signal with valleys at samples 1 and 3, both less than 800 ms from the start.\<close>

definition signal_early_valleys :: "real list" where
  "signal_early_valleys = [5, 4, 5, 4, 5, 5, 5, 5, 5, 5]"

text \<open>
  A signal with a spike at its first sample and valleys at samples 4 and 8 that are small
  against the spike.
\<close>

definition signal_spike :: "real list" where
  "signal_spike = [15, 2, 1, 1, 0, 2, 2, 2, 0, 1]"

text \<open>A signal that is flat until its last sample, with no valley and no peak.\<close>

definition signal_flat :: "real list" where
  "signal_flat = [5, 5, 5, 5, 5, 5, 5, 5, 5, 4]"

text \<open>Two labellings: none of the rows labelled, and two labelled reps of five rows.\<close>

definition reps_unlabelled :: "int list" where
  "reps_unlabelled = [0, 0, 0, 0, 0, 0, 0, 0, 0, 0]"

definition reps_two_labels :: "int list" where
  "reps_two_labels = [1, 1, 1, 1, 1, 2, 2, 2, 2, 2]"

text \<open>The three reps the function returns for the signal with two valleys.\<close>

definition reps_of_two_valleys :: "rep_info list" where
  "reps_of_two_valleys =
     [\<lparr>rep = 1, start_idx = 0, end_idx = 3, next_rep_start_idx = Some 4,
       start_time_ms = 0, end_time_ms = 750, duration_ms = 750, peak_idx = 2,
       peak_time_ms = 500, peak_value = 11, valley_value = 9, amplitude = 2\<rparr>,
      \<lparr>rep = 2, start_idx = 4, end_idx = 7, next_rep_start_idx = Some 8,
       start_time_ms = 1000, end_time_ms = 1750, duration_ms = 750, peak_idx = 6,
       peak_time_ms = 1500, peak_value = 11, valley_value = 9, amplitude = 2\<rparr>,
      \<lparr>rep = 3, start_idx = 8, end_idx = 9, next_rep_start_idx = None,
       start_time_ms = 2000, end_time_ms = 2250, duration_ms = 250, peak_idx = 9,
       peak_time_ms = 2250, peak_value = 10, valley_value = 9, amplitude = 1\<rparr>]"

text \<open>
  The rep the function returns for the flat signal with two labelled reps, and the rep
  it returns for the flat signal without labels.
\<close>

definition rep_of_flat_guided :: rep_info where
  "rep_of_flat_guided =
     \<lparr>rep = 1, start_idx = 0, end_idx = 8, next_rep_start_idx = Some 9,
      start_time_ms = 0, end_time_ms = 2000, duration_ms = 2000, peak_idx = 0,
      peak_time_ms = 0, peak_value = 5, valley_value = 5, amplitude = 0\<rparr>"

definition rep_of_flat_unlabelled :: rep_info where
  "rep_of_flat_unlabelled =
     \<lparr>rep = 1, start_idx = 0, end_idx = 9, next_rep_start_idx = None,
      start_time_ms = 0, end_time_ms = 2250, duration_ms = 2250, peak_idx = 0,
      peak_time_ms = 0, peak_value = 5, valley_value = 5, amplitude = 0\<rparr>"

section \<open>Verified properties\<close>

subsection \<open>Fewer than three reps\<close>

text \<open>
  C2. For every list of fewer than three rep-metric entries, the empty list included, and
  whatever the arithmetic, \<open>compute_fatigue_indicators\<close> returns (the model has no error
  branch before or inside the length test, so nothing is raised) exactly the dictionary
  written out below: the score, the four indicators, the overall consistency, the four
  trends, the four consistencies, the two legacy percentages and the seventeen entries of
  \<open>early_vs_late\<close> are the number 0, \<open>fatigue_level\<close> is \<open>insufficient_data\<close>, the
  direction is \<open>stable\<close>, the report has its quality, its rating and one finding, and
  \<open>n_reps_analyzed\<close> is the length of the input. So the result holds 34 numbers, at the
  top level and inside the nested dictionaries, and every one of them is 0, except
  \<open>n_reps_analyzed\<close>.
\<close>

theorem insufficient_data_sentinel:
  assumes "length ms < 3"
  shows "compute_fatigue_indicators fl ms =
           [(''fatigue_score'', Num 0),
            (''fatigue_level'', Str ''insufficient_data''),
            (''D_omega'', Num 0),
            (''I_T'', Num 0),
            (''I_J'', Num 0),
            (''I_S'', Num 0),
            (''gyro_direction'', Str ''stable''),
            (''consistency_score'', Num 0),
            (''rom_trend'', Num 0),
            (''smoothness_trend'', Num 0),
            (''duration_trend'', Num 0),
            (''peak_trend'', Num 0),
            (''rom_consistency'', Num 0),
            (''smoothness_consistency'', Num 0),
            (''duration_consistency'', Num 0),
            (''peak_consistency'', Num 0),
            (''rom_change_percent'', Num 0),
            (''smoothness_degradation_percent'', Num 0),
            (''early_vs_late'', Dict
               [(''rom_change_percent'', Num 0),
                (''smoothness_degradation_percent'', Num 0),
                (''duration_increase_percent'', Num 0),
                (''peak_degradation_percent'', Num 0),
                (''gyro_peak_change_percent'', Num 0),
                (''jerk_increase_percent'', Num 0),
                (''shakiness_increase_percent'', Num 0),
                (''avg_gyro_peak_first'', Num 0),
                (''avg_gyro_peak_last'', Num 0),
                (''avg_shakiness_first'', Num 0),
                (''avg_shakiness_last'', Num 0),
                (''avg_rom_first'', Num 0),
                (''avg_rom_last'', Num 0),
                (''avg_smoothness_first'', Num 0),
                (''avg_smoothness_last'', Num 0),
                (''avg_duration_first_ms'', Num 0),
                (''avg_duration_last_ms'', Num 0)]),
            (''performance_report'', Dict
               [(''session_quality'', Str ''Insufficient Data''),
                (''consistency_rating'', Str ''Unknown''),
                (''key_findings'', PyList [FStr ''Need at least 3 reps for analysis'' []])]),
            (''n_reps_analyzed'', Num (real (length ms)))]
       \<and> length (numeric_fields [] (compute_fatigue_indicators fl ms)) = 34
       \<and> (\<forall>(path, x) \<in> set (numeric_fields [] (compute_fatigue_indicators fl ms)).
             x = (if path = [''n_reps_analyzed''] then real (length ms) else 0))"
  using assms by (simp add: compute_fatigue_indicators_def insufficient_data_def)

theorem insufficient_data_sentinel_witness:
  "length ([Map.empty, [''duration_ms'' \<mapsto> 1500]] :: rep_metrics list) < 3
   \<and> map_of (compute_fatigue_indicators exact_arith [Map.empty, [''duration_ms'' \<mapsto> 1500]])
         ''fatigue_score'' = Some (Num 0)
   \<and> map_of (compute_fatigue_indicators exact_arith [Map.empty, [''duration_ms'' \<mapsto> 1500]])
         ''fatigue_level'' = Some (Str ''insufficient_data'')
   \<and> map_of (compute_fatigue_indicators exact_arith [Map.empty, [''duration_ms'' \<mapsto> 1500]])
         ''n_reps_analyzed'' = Some (Num 2)
   \<and> length (numeric_fields []
         (compute_fatigue_indicators exact_arith [Map.empty, [''duration_ms'' \<mapsto> 1500]])) = 34"
proof -
  have len: "length ([Map.empty, [''duration_ms'' \<mapsto> 1500]] :: rep_metrics list) < 3"
    by simp
  from insufficient_data_sentinel [OF len, of exact_arith]
  have eq: "compute_fatigue_indicators exact_arith [Map.empty, [''duration_ms'' \<mapsto> 1500]]
              = insufficient_data 2"
    and n: "length (numeric_fields []
         (compute_fatigue_indicators exact_arith [Map.empty, [''duration_ms'' \<mapsto> 1500]])) = 34"
    by (simp_all add: insufficient_data_def)
  show ?thesis
    using len n unfolding eq by (simp add: insufficient_data_def)
qed

subsection \<open>The composite fatigue score\<close>

lemma exact_ops:
  "fl_add exact_arith a b = a + b" "fl_sub exact_arith a b = a - b"
  "fl_mul exact_arith a b = a * b" "fl_div exact_arith a b = a / b"
  "fl_lit exact_arith x = x" "fl_mean exact_arith = np_mean" "fl_std exact_arith = np_std"
  "fl_slope exact_arith = linregress_slope" "fl_round exact_arith = py_round"
  by (simp_all add: exact_arith_def)

lemma sign_preserving_exact: "sign_preserving exact_arith"
  by (simp add: sign_preserving_def exact_ops)

lemma sign_preservingD:
  assumes "sign_preserving fl"
  shows "0 \<le> a \<Longrightarrow> 0 \<le> b \<Longrightarrow> 0 \<le> fl_add fl a b"
    and "0 \<le> a \<Longrightarrow> 0 \<le> b \<Longrightarrow> 0 \<le> fl_mul fl a b"
    and "b \<le> a \<Longrightarrow> 0 \<le> fl_sub fl a b"
    and "0 \<le> x \<Longrightarrow> 0 \<le> fl_lit fl x"
  using assms unfolding sign_preserving_def by blast+

lemma Max4: "Max {a, b, c, d :: real} = max a (max b (max c d))"
  by simp

lemma fatigue_raw_nonneg:
  assumes sp: "sign_preserving fl"
  shows "0 \<le> fatigue_raw fl ms"
proof -
  define D where "D = max 0 (D_omega fl ms)"
  define T where "T = max 0 (I_T fl ms)"
  define J where "J = max 0 (I_J fl ms)"
  define S where "S = max 0 (I_S fl ms)"
  define composite where
    "composite = fl_add fl
              (fl_add fl
                 (fl_add fl (fl_mul fl (fl_lit fl 0.35) D) (fl_mul fl (fl_lit fl 0.25) T))
                 (fl_mul fl (fl_lit fl 0.20) J))
              (fl_mul fl (fl_lit fl 0.20) S)"
  define worst where "worst = max D (max T (max J S))"
  define boost where "boost = fl_mul fl (fl_sub fl worst (fl_lit fl 0.40)) (fl_lit fl 0.5)"
  have nn: "0 \<le> D" "0 \<le> T" "0 \<le> J" "0 \<le> S"
    by (simp_all add: D_def T_def J_def S_def)
  have lits: "0 \<le> fl_lit fl 0.35" "0 \<le> fl_lit fl 0.25" "0 \<le> fl_lit fl 0.20"
    "0 \<le> fl_lit fl 0.5"
    by (rule sign_preservingD(4) [OF sp], simp)+
  have c: "0 \<le> composite"
    unfolding composite_def
    by (intro sign_preservingD(1) [OF sp] sign_preservingD(2) [OF sp] nn lits)
  have raw: "fatigue_raw fl ms =
               (if worst > fl_lit fl 0.40 then min 1 (fl_add fl composite boost) else composite)"
    unfolding fatigue_raw_def boost_def worst_def composite_def D_def T_def J_def S_def Let_def ..
  show ?thesis
  proof (cases "worst > fl_lit fl 0.40")
    case True
    then have "0 \<le> fl_sub fl worst (fl_lit fl 0.40)"
      by (intro sign_preservingD(3) [OF sp]) simp
    then have "0 \<le> boost"
      unfolding boost_def by (intro sign_preservingD(2) [OF sp] lits)
    with c have "0 \<le> fl_add fl composite boost"
      by (intro sign_preservingD(1) [OF sp])
    with True show ?thesis unfolding raw by simp
  next
    case False
    with c show ?thesis unfolding raw by simp
  qed
qed

lemma fatigue_score_range:
  assumes "sign_preserving fl"
  shows "0 \<le> fatigue_score fl ms \<and> fatigue_score fl ms \<le> 100"
proof -
  have "0 \<le> fl_mul fl (fatigue_raw fl ms) 100"
    by (intro sign_preservingD(2) [OF assms] fatigue_raw_nonneg [OF assms]) simp
  then show ?thesis by (simp add: fatigue_score_def)
qed

lemmas column_defs = column_def dict_get_def gyro_peaks_def shakiness_vals_def durations_def
  jerk_values_def peaks_def smoothness_def has_gyro_def has_shakiness_def any_positive_def
  third_of_def avg_first_def avg_last_def first_slice_def last_slice_def np_mean_def
  avg_shaky_first_def avg_shaky_last_def exact_ops

lemma session_slowing_indicators:
  "D_omega exact_arith session_slowing = 0" "I_T exact_arith session_slowing = 0.3984"
  "I_J exact_arith session_slowing = 0" "I_S exact_arith session_slowing = 0"
  by (simp_all add: D_omega_def I_T_def I_J_def I_S_def session_slowing_def column_defs)

lemma session_surge_indicators:
  "D_omega exact_arith session_surge = 1" "I_T exact_arith session_surge = 0"
  "I_J exact_arith session_surge = 0" "I_S exact_arith session_surge = 0"
  by (simp_all add: D_omega_def I_T_def I_J_def I_S_def session_surge_def column_defs)

lemma py_round_examples: "py_round 9.96 1 = 10" "py_round 65 1 = 65"
  by (simp_all add: py_round_def round_half_even_def Let_def)

text \<open>
  C1, as the code has it. For every list of at least three rep-metric entries, in every
  arithmetic that keeps signs, the composite is
  \<open>0.35 max(0, D_omega) + 0.25 max(0, I_T) + 0.20 max(0, I_J) + 0.20 max(0, I_S)\<close>,
  summed from left to right; when the largest clamped indicator exceeds 0.40,
  \<open>(worst - 0.40) * 0.5\<close> is added and the sum is capped at 1. The score is the
  composite times 100 clamped to \<open>[0, 100]\<close>. The returned \<open>fatigue_score\<close> is that
  score rounded to one decimal place, and the returned \<open>fatigue_level\<close> is read off the
  computed score before rounding: below 10 minimal, below 20 low, below 35 moderate,
  below 55 high, severe otherwise. Every product, sum and difference is the one the
  arithmetic computes, so in double precision the band is that of the double the program
  holds, and the rounding is applied to that double.
\<close>

theorem fatigue_formula:
  assumes "length ms \<ge> 3" and "sign_preserving fl"
  shows "(let D = max 0 (D_omega fl ms); T = max 0 (I_T fl ms);
              J = max 0 (I_J fl ms); S = max 0 (I_S fl ms);
              composite =
                fl_add fl
                  (fl_add fl
                     (fl_add fl (fl_mul fl (fl_lit fl 0.35) D) (fl_mul fl (fl_lit fl 0.25) T))
                     (fl_mul fl (fl_lit fl 0.20) J))
                  (fl_mul fl (fl_lit fl 0.20) S);
              worst = Max {D, T, J, S};
              boosted =
                (if worst > fl_lit fl 0.40
                 then min 1 (fl_add fl composite
                               (fl_mul fl (fl_sub fl worst (fl_lit fl 0.40)) (fl_lit fl 0.5)))
                 else composite);
              score = max 0 (min 100 (fl_mul fl boosted 100))
          in map_of (compute_fatigue_indicators fl ms) ''fatigue_score''
               = Some (Num (fl_round fl score 1))
           \<and> map_of (compute_fatigue_indicators fl ms) ''fatigue_level''
               = Some (Str (if score < 10 then ''minimal'' else if score < 20 then ''low''
                            else if score < 35 then ''moderate''
                            else if score < 55 then ''high'' else ''severe'')))"
proof -
  define D where "D = max 0 (D_omega fl ms)"
  define T where "T = max 0 (I_T fl ms)"
  define J where "J = max 0 (I_J fl ms)"
  define S where "S = max 0 (I_S fl ms)"
  define composite where
    "composite = fl_add fl
                  (fl_add fl
                     (fl_add fl (fl_mul fl (fl_lit fl 0.35) D) (fl_mul fl (fl_lit fl 0.25) T))
                     (fl_mul fl (fl_lit fl 0.20) J))
                  (fl_mul fl (fl_lit fl 0.20) S)"
  define worst where "worst = Max {D, T, J, S}"
  define boosted where
    "boosted = (if worst > fl_lit fl 0.40
                 then min 1 (fl_add fl composite
                               (fl_mul fl (fl_sub fl worst (fl_lit fl 0.40)) (fl_lit fl 0.5)))
                 else composite)"
  define score where "score = max 0 (min 100 (fl_mul fl boosted 100))"
  have raw: "fatigue_raw fl ms = boosted"
    unfolding fatigue_raw_def boosted_def worst_def composite_def D_def T_def J_def S_def
      Let_def Max4 ..
  have "0 \<le> fatigue_score fl ms" using fatigue_score_range [OF assms(2), of ms] by blast
  then have sc: "fatigue_score fl ms = score"
    unfolding score_def fatigue_score_def raw by (rule max_absorb2 [symmetric])
  have res: "map_of (compute_fatigue_indicators fl ms) ''fatigue_score''
               = Some (Num (fl_round fl score 1))
           \<and> map_of (compute_fatigue_indicators fl ms) ''fatigue_level''
               = Some (Str (if score < 10 then ''minimal'' else if score < 20 then ''low''
                            else if score < 35 then ''moderate''
                            else if score < 55 then ''high'' else ''severe''))"
    unfolding sc [symmetric] using assms(1)
    by (simp add: compute_fatigue_indicators_def Let_def fatigue_level_def)
  show ?thesis
    unfolding Let_def
    using res
    unfolding score_def boosted_def worst_def composite_def D_def T_def J_def S_def .
qed

text \<open>
  The surge session in exact arithmetic: \<open>D_omega = 1\<close>, so the boost applies and the
  score is 65.
\<close>

theorem fatigue_formula_witness:
  "length session_surge \<ge> 3 \<and> sign_preserving exact_arith
   \<and> map_of (compute_fatigue_indicators exact_arith session_surge) ''fatigue_score''
       = Some (Num 65)
   \<and> map_of (compute_fatigue_indicators exact_arith session_surge) ''fatigue_level''
       = Some (Str ''severe'')"
proof -
  have len: "length session_surge \<ge> 3" by (simp add: session_surge_def)
  have w: "Max {max 0 1, max 0 0, max 0 0, max 0 (0::real)} = 1" by simp
  have c: "0.35 * max 0 1 + 0.25 * max 0 0 + 0.20 * max 0 0 + 0.20 * max 0 (0::real) = 0.35"
    by simp
  have b: "(if (0.40::real) < 1 then min 1 (0.35 + (1 - 0.40) * 0.5) else 0.35) = (0.65::real)"
    by simp
  have s: "max 0 (min 100 (0.65 * 100)) = (65::real)" by simp
  have l: "(if (65::real) < 10 then ''minimal'' else if (65::real) < 20 then ''low''
            else if (65::real) < 35 then ''moderate''
            else if (65::real) < 55 then ''high'' else ''severe'') = ''severe''"
    by simp
  show ?thesis
    using fatigue_formula [OF len sign_preserving_exact] len sign_preserving_exact
    unfolding Let_def exact_ops session_surge_indicators w c b s l py_round_examples
    by blast
qed

text \<open>
  C1 as stated fails on the slowing session. No indicator exceeds 0.40, the composite
  times 100 is 9.96, yet the returned \<open>fatigue_score\<close> is 10.0; and the returned level is
  \<open>minimal\<close> although the returned score is not below 10. The session is evaluated in
  exact arithmetic; the score is far enough from 9.95 and from 10 for double arithmetic to
  return the same two values.
\<close>

theorem fatigue_score_unrounded_counterexample:
  "min 100 (max 0 ((0.35 * max 0 (D_omega exact_arith session_slowing)
       + 0.25 * max 0 (I_T exact_arith session_slowing)
       + 0.20 * max 0 (I_J exact_arith session_slowing)
       + 0.20 * max 0 (I_S exact_arith session_slowing)) * 100)) = 9.96
   \<and> max 0 (D_omega exact_arith session_slowing) \<le> 0.40
   \<and> max 0 (I_T exact_arith session_slowing) \<le> 0.40
   \<and> max 0 (I_J exact_arith session_slowing) \<le> 0.40
   \<and> max 0 (I_S exact_arith session_slowing) \<le> 0.40
   \<and> map_of (compute_fatigue_indicators exact_arith session_slowing) ''fatigue_score''
       = Some (Num 10)
   \<and> map_of (compute_fatigue_indicators exact_arith session_slowing) ''fatigue_level''
       = Some (Str ''minimal'')"
proof -
  have raw: "fatigue_raw exact_arith session_slowing = 0.0996"
    by (simp add: fatigue_raw_def session_slowing_indicators exact_ops)
  have sc: "fatigue_score exact_arith session_slowing = 9.96"
    by (simp add: fatigue_score_def raw exact_ops)
  have len: "\<not> length session_slowing < 3" by (simp add: session_slowing_def)
  have fs: "map_of (compute_fatigue_indicators exact_arith session_slowing) ''fatigue_score''
              = Some (Num (py_round (fatigue_score exact_arith session_slowing) 1))"
    by (simp add: compute_fatigue_indicators_def len exact_ops del: One_nat_def)
  have fl: "map_of (compute_fatigue_indicators exact_arith session_slowing) ''fatigue_level''
              = Some (Str ''minimal'')"
    by (simp add: compute_fatigue_indicators_def len fatigue_level_def sc)
  have ar: "min 100 (max 0 ((0.35 * max 0 0 + 0.25 * max 0 0.3984
       + 0.20 * max 0 0 + 0.20 * max 0 0) * 100)) = (9.96::real)
   \<and> max 0 0 \<le> (0.40::real) \<and> max 0 0.3984 \<le> (0.40::real)"
    by simp
  show ?thesis
    unfolding fs fl sc py_round_examples session_slowing_indicators using ar by blast
qed

subsection \<open>Consistency\<close>

lemma np_mean_const:
  assumes "\<forall>v \<in> set vs. v = c" "vs \<noteq> []"
  shows "np_mean vs = c"
proof -
  have "vs = replicate (length vs) c"
    using assms(1) by (simp add: replicate_length_same)
  then have "sum_list vs = real (length vs) * c"
    by (metis sum_list_replicate of_nat_mult mult.commute semiring_1_class.of_nat_simps(2) mult_of_nat_commute)
  with assms(2) show ?thesis by (simp add: np_mean_def)
qed

lemma exact_at_zero_exact: "exact_at_zero exact_arith"
  unfolding exact_at_zero_def exact_ops
  using np_mean_const [where c = 0] by auto

lemma exact_at_zeroD:
  assumes "exact_at_zero fl"
  shows "x \<noteq> 0 \<Longrightarrow> fl_div fl 0 x = 0"
    and "fl_mul fl 0 x = 0"
    and "fl_sub fl 100 0 = 100"
    and "vs \<noteq> [] \<Longrightarrow> \<forall>v \<in> set vs. v = 0 \<Longrightarrow> fl_mean fl vs = 0"
  using assms unfolding exact_at_zero_def by blast+

lemma get_consistency_eq:
  "length vs \<ge> 2 \<Longrightarrow> get_consistency fl vs =
     (if fl_mean fl vs = 0 then 0
      else min 100 (max 0 (fl_sub fl 100 (fl_mul fl (fl_div fl (fl_std fl vs) (fl_mean fl vs)) 333))))"
  by (simp add: get_consistency_def Let_def)

lemma len_cols: "length (roms ms) = length ms" "length (smoothness ms) = length ms"
  "length (durations ms) = length ms" "length (peaks ms) = length ms"
  by (simp_all add: roms_def smoothness_def durations_def peaks_def column_def)

lemma map_of_consistency:
  assumes "length ms \<ge> 3"
  shows "map_of (compute_fatigue_indicators fl ms) ''rom_consistency''
           = Some (Num (fl_round fl (get_consistency fl (roms ms)) 1))"
    and "map_of (compute_fatigue_indicators fl ms) ''smoothness_consistency''
           = Some (Num (fl_round fl (get_consistency fl (smoothness ms)) 1))"
    and "map_of (compute_fatigue_indicators fl ms) ''duration_consistency''
           = Some (Num (fl_round fl (get_consistency fl (durations ms)) 1))"
    and "map_of (compute_fatigue_indicators fl ms) ''peak_consistency''
           = Some (Num (fl_round fl (get_consistency fl (peaks ms)) 1))"
    and "map_of (compute_fatigue_indicators fl ms) ''consistency_score''
           = Some (Num (fl_round fl (consistency_score fl ms) 1))"
  using assms by (simp_all add: compute_fatigue_indicators_def Let_def del: One_nat_def)

text \<open>
  C9, as the code has it. For every list of at least three rep-metric entries and each of
  the four metrics (ROM, smoothness, duration, peak), the returned consistency is, rounded
  to one decimal place, 0 when the computed mean of the series is 0, and otherwise
  \<open>100 - cv * 333\<close> clamped to \<open>[0, 100]\<close> with \<open>cv = std / mean\<close> over all reps. The
  returned \<open>consistency_score\<close> is the mean of the four unrounded values, rounded to one
  decimal place. Every quotient, product, difference, mean and standard deviation is the
  one the arithmetic computes, and the test against 0 is made on the computed mean. In an
  arithmetic whose operations on 0 are exact, a series whose computed standard deviation
  is 0 gives 100 when its computed mean is not 0 and gives 0 when it is 0, and a series
  that is 0 at every rep gives 0; no division by zero occurs either way, the mean being
  tested before the division.
\<close>

theorem consistency_mapping:
  assumes "length ms \<ge> 3" and "exact_at_zero fl"
  shows "(let consistency =
                (\<lambda>vs. if fl_mean fl vs = 0 then 0
                      else min 100 (max 0 (fl_sub fl 100
                             (fl_mul fl (fl_div fl (fl_std fl vs) (fl_mean fl vs)) 333))))
          in map_of (compute_fatigue_indicators fl ms) ''rom_consistency''
               = Some (Num (fl_round fl (consistency (roms ms)) 1))
           \<and> map_of (compute_fatigue_indicators fl ms) ''smoothness_consistency''
               = Some (Num (fl_round fl (consistency (smoothness ms)) 1))
           \<and> map_of (compute_fatigue_indicators fl ms) ''duration_consistency''
               = Some (Num (fl_round fl (consistency (durations ms)) 1))
           \<and> map_of (compute_fatigue_indicators fl ms) ''peak_consistency''
               = Some (Num (fl_round fl (consistency (peaks ms)) 1))
           \<and> map_of (compute_fatigue_indicators fl ms) ''consistency_score''
               = Some (Num (fl_round fl
                     (fl_mean fl [consistency (roms ms), consistency (smoothness ms),
                                  consistency (durations ms), consistency (peaks ms)]) 1))
           \<and> (\<forall>vs \<in> {roms ms, smoothness ms, durations ms, peaks ms}.
                 (fl_std fl vs = 0 \<longrightarrow> consistency vs = (if fl_mean fl vs = 0 then 0 else 100))
               \<and> ((\<forall>v \<in> set vs. v = 0) \<longrightarrow> consistency vs = 0)))"
proof -
  define consistency :: "real list \<Rightarrow> real" where
    "consistency = (\<lambda>vs. if fl_mean fl vs = 0 then 0
                      else min 100 (max 0 (fl_sub fl 100
                             (fl_mul fl (fl_div fl (fl_std fl vs) (fl_mean fl vs)) 333))))"
  have len: "length (roms ms) \<ge> 2" "length (smoothness ms) \<ge> 2"
    "length (durations ms) \<ge> 2" "length (peaks ms) \<ge> 2"
    using assms(1) by (simp_all add: len_cols)
  have eq: "get_consistency fl (roms ms) = consistency (roms ms)"
    "get_consistency fl (smoothness ms) = consistency (smoothness ms)"
    "get_consistency fl (durations ms) = consistency (durations ms)"
    "get_consistency fl (peaks ms) = consistency (peaks ms)"
    unfolding consistency_def by (rule get_consistency_eq, rule len)+
  have sc: "consistency_score fl ms =
              fl_mean fl [consistency (roms ms), consistency (smoothness ms),
                          consistency (durations ms), consistency (peaks ms)]"
    unfolding consistency_score_def eq ..
  have std0: "consistency vs = (if fl_mean fl vs = 0 then 0 else 100)"
    if "fl_std fl vs = 0" for vs
  proof (cases "fl_mean fl vs = 0")
    case True
    then show ?thesis by (simp add: consistency_def)
  next
    case False
    have "fl_sub fl 100 (fl_mul fl (fl_div fl (fl_std fl vs) (fl_mean fl vs)) 333) = 100"
      unfolding that exact_at_zeroD(1) [OF assms(2) False] exact_at_zeroD(2) [OF assms(2)]
      by (rule exact_at_zeroD(3) [OF assms(2)])
    with False show ?thesis by (simp add: consistency_def)
  qed
  have zero: "consistency vs = 0"
    if "vs \<in> {roms ms, smoothness ms, durations ms, peaks ms}" "\<forall>v \<in> set vs. v = 0" for vs
  proof -
    from that(1) len have "vs \<noteq> []" by auto
    from exact_at_zeroD(4) [OF assms(2) this that(2)] show ?thesis
      by (simp add: consistency_def)
  qed
  have res: "map_of (compute_fatigue_indicators fl ms) ''rom_consistency''
               = Some (Num (fl_round fl (consistency (roms ms)) 1))
           \<and> map_of (compute_fatigue_indicators fl ms) ''smoothness_consistency''
               = Some (Num (fl_round fl (consistency (smoothness ms)) 1))
           \<and> map_of (compute_fatigue_indicators fl ms) ''duration_consistency''
               = Some (Num (fl_round fl (consistency (durations ms)) 1))
           \<and> map_of (compute_fatigue_indicators fl ms) ''peak_consistency''
               = Some (Num (fl_round fl (consistency (peaks ms)) 1))
           \<and> map_of (compute_fatigue_indicators fl ms) ''consistency_score''
               = Some (Num (fl_round fl
                     (fl_mean fl [consistency (roms ms), consistency (smoothness ms),
                                  consistency (durations ms), consistency (peaks ms)]) 1))
           \<and> (\<forall>vs \<in> {roms ms, smoothness ms, durations ms, peaks ms}.
                 (fl_std fl vs = 0 \<longrightarrow> consistency vs = (if fl_mean fl vs = 0 then 0 else 100))
               \<and> ((\<forall>v \<in> set vs. v = 0) \<longrightarrow> consistency vs = 0))"
    unfolding map_of_consistency [OF assms(1)] eq sc using std0 zero by blast
  show ?thesis
    unfolding Let_def using res unfolding consistency_def .
qed

lemma session_steady_columns:
  "roms session_steady = [90, 90, 90, 90]"
  "smoothness session_steady = [50, 50, 50, 50]"
  "durations session_steady = [990, 1010, 990, 1010]"
  "peaks session_steady = [5, 5, 5, 5]"
  by (simp_all add: roms_def has_rom_degrees_def any_positive_def smoothness_def durations_def
      peaks_def column_def dict_get_def session_steady_def)

lemma steady_stats:
  "np_mean [90, 90, 90, 90] = 90" "np_std [90, 90, 90, 90] = 0"
  "np_mean [50, 50, 50, 50] = 50" "np_std [50, 50, 50, 50] = 0"
  "np_mean [990, 1010, 990, 1010] = 1000" "np_std [990, 1010, 990, 1010] = 10"
  "np_mean [5, 5, 5, 5] = 5" "np_std [5, 5, 5, 5] = 0"
  "np_mean [100, 100, 96.67, 100] = 99.1675"
  by (simp_all add: np_mean_def np_std_def)

lemma py_round_examples2: "py_round 100 1 = 100" "py_round 96.67 1 = 96.7"
  "py_round 99.1675 1 = 99.2" "py_round 0 1 = 0" "py_round 25 1 = 25"
  by (simp_all add: py_round_def round_half_even_def Let_def)

lemma session_surge_columns:
  "peaks session_surge = [0, 0, 0]"
  by (simp_all add: peaks_def column_def dict_get_def session_surge_def)

text \<open>
  The steady session in exact arithmetic: constant ROM gives 100, the alternating
  duration has \<open>cv = 10 / 1000\<close> and gives 96.67, returned as 96.7.
\<close>

theorem consistency_mapping_witness:
  "length session_steady \<ge> 3 \<and> exact_at_zero exact_arith
   \<and> map_of (compute_fatigue_indicators exact_arith session_steady) ''rom_consistency''
       = Some (Num 100)
   \<and> map_of (compute_fatigue_indicators exact_arith session_steady) ''duration_consistency''
       = Some (Num 96.7)
   \<and> map_of (compute_fatigue_indicators exact_arith session_steady) ''consistency_score''
       = Some (Num 99.2)"
proof -
  have len: "length session_steady \<ge> 3" by (simp add: session_steady_def)
  have a: "(if (90::real) = 0 then 0 else min 100 (max 0 (100 - 0 / 90 * 333))) = (100::real)"
    "(if (50::real) = 0 then 0 else min 100 (max 0 (100 - 0 / 50 * 333))) = (100::real)"
    "(if (1000::real) = 0 then 0 else min 100 (max 0 (100 - 10 / 1000 * 333))) = (96.67::real)"
    "(if (5::real) = 0 then 0 else min 100 (max 0 (100 - 0 / 5 * 333))) = (100::real)"
    by simp_all
  show ?thesis
    using consistency_mapping [OF len exact_at_zero_exact] len exact_at_zero_exact
    unfolding Let_def exact_ops session_steady_columns steady_stats a steady_stats
      py_round_examples2
    by blast
qed

text \<open>
  C9 as stated fails on a series that is constantly 0. In the surge session no rep has a
  \<open>peak\<close> entry, so the peak series is \<open>[0, 0, 0]\<close> with standard deviation 0, and the
  returned \<open>peak_consistency\<close> is 0, not 100. The mean of three zeros is 0 in double
  arithmetic as well, so the guard returns 0 there too.
\<close>

theorem constant_zero_series_counterexample:
  "peaks session_surge = [0, 0, 0] \<and> fl_std exact_arith (peaks session_surge) = 0
   \<and> map_of (compute_fatigue_indicators exact_arith session_surge) ''peak_consistency''
       = Some (Num 0)"
proof -
  have len: "length session_surge \<ge> 3" by (simp add: session_surge_def)
  have g: "get_consistency exact_arith [0, 0, 0] = 0"
    by (simp add: get_consistency_def np_mean_def exact_ops)
  have s: "np_std [0, 0, 0] = 0" by (simp add: np_std_def np_mean_def)
  show ?thesis
    unfolding map_of_consistency [OF len] session_surge_columns g exact_ops s py_round_examples2
    by simp
qed

subsection \<open>Smoothness and irregularity of one rep\<close>

lemma contrib_bounds:
  fixes nj dr :: real and ex :: int
  assumes "0 \<le> ex"
  shows "0 \<le> min 40 (max 0 (nj - 1.5) * 13.3)" "min 40 (max 0 (nj - 1.5) * 13.3) \<le> 40"
    "0 \<le> min 35 (max 0 (dr - 0.5) * 10)" "min 35 (max 0 (dr - 0.5) * 10) \<le> 35"
    "0 \<le> min 25 (real_of_int ex * 3.3)" "min 25 (real_of_int ex * 3.3) \<le> 25"
proof -
  have "0 \<le> max 0 (nj - 1.5) * 13.3" by (rule mult_nonneg_nonneg) simp_all
  then show "0 \<le> min 40 (max 0 (nj - 1.5) * 13.3)" by simp
  have "0 \<le> max 0 (dr - 0.5) * 10" by (rule mult_nonneg_nonneg) simp_all
  then show "0 \<le> min 35 (max 0 (dr - 0.5) * 10)" by simp
  have "0 \<le> real_of_int ex * 3.3" using assms by (intro mult_nonneg_nonneg) simp_all
  then show "0 \<le> min 25 (real_of_int ex * 3.3)" by simp
qed simp_all

lemma irregularity_sum:
  fixes nj dr :: real and ex :: int
  assumes "0 \<le> ex"
  shows "min 40 (max 0 (nj - 1.5) * 13.3) + min 35 (max 0 (dr - 0.5) * 10)
           + min 25 (real_of_int ex * 3.3)
         + max 0 (min 100 (100 - (min 40 (max 0 (nj - 1.5) * 13.3) + min 35 (max 0 (dr - 0.5) * 10)
           + min 25 (real_of_int ex * 3.3)))) = 100
       \<and> 0 \<le> min 40 (max 0 (nj - 1.5) * 13.3) + min 35 (max 0 (dr - 0.5) * 10)
           + min 25 (real_of_int ex * 3.3)
       \<and> min 40 (max 0 (nj - 1.5) * 13.3) + min 35 (max 0 (dr - 0.5) * 10)
           + min 25 (real_of_int ex * 3.3) \<le> 100"
proof -
  define jc where "jc = min 40 (max 0 (nj - 1.5) * 13.3)"
  define dc where "dc = min 35 (max 0 (dr - 0.5) * 10)"
  define pc where "pc = min 25 (real_of_int ex * 3.3)"
  have b: "0 \<le> jc" "jc \<le> 40" "0 \<le> dc" "dc \<le> 35" "0 \<le> pc" "pc \<le> 25"
    unfolding jc_def dc_def pc_def by (rule contrib_bounds [OF assms])+
  then have "jc + dc + pc + max 0 (min 100 (100 - (jc + dc + pc))) = 100
       \<and> 0 \<le> jc + dc + pc \<and> jc + dc + pc \<le> 100" by simp
  then show ?thesis unfolding jc_def dc_def pc_def .
qed

lemma ldlj_excess_peaks_nonneg: "0 \<le> ldlj_excess_peaks fp signal"
  by (simp add: ldlj_excess_peaks_def Let_def)

lemma ldlj_scores_sum:
  "fst (ldlj_scores fp signal duration dt) + snd (ldlj_scores fp signal duration dt) = 100
   \<and> 0 \<le> fst (ldlj_scores fp signal duration dt)
   \<and> fst (ldlj_scores fp signal duration dt) \<le> 100"
  unfolding ldlj_scores_def Let_def fst_conv snd_conv
  by (rule irregularity_sum [OF ldlj_excess_peaks_nonneg])

text \<open>
  C3, as the code has it. For every rep with at least four samples, a positive duration
  and no exception inside the function (\<open>compute_ldlj_try\<close> returns a pair), the function
  returns that pair, the irregularity and smoothness scores sum to exactly 100, and both
  lie in \<open>[0, 100]\<close>. This holds for any peak detector.
\<close>

theorem ldlj_sum_100:
  assumes "length accel_x \<ge> 4" and "timestamps_ms \<noteq> []"
    and "last timestamps_ms - hd timestamps_ms > 0"
    and "compute_ldlj_try fp accel_x accel_y accel_z timestamps_ms filtered_mag = Inr r"
  shows "compute_ldlj fp accel_x accel_y accel_z timestamps_ms filtered_mag = r
       \<and> fst r + snd r = 100 \<and> 0 \<le> fst r \<and> fst r \<le> 100 \<and> 0 \<le> snd r \<and> snd r \<le> 100"
proof -
  have c: "compute_ldlj fp accel_x accel_y accel_z timestamps_ms filtered_mag = r"
    using assms(4) by (simp add: compute_ldlj_def)
  from assms obtain signal duration dt where r: "r = ldlj_scores fp signal duration dt"
    by (auto simp: compute_ldlj_try_def Let_def split: if_splits sum.splits option.splits)
  from ldlj_scores_sum [of fp signal duration dt] c show ?thesis
    unfolding r by linarith
qed

text \<open>
  A rep of five samples at 100 ms with the filtered magnitude \<open>1, 2, 3, 2, 1\<close>: the jerk
  contributes 40, the direction changes 20, the peaks 0, so the pair is \<open>(60, 40)\<close>.
\<close>

theorem ldlj_sum_100_witness:
  "length [0, 0, 0, 0, 0 :: real] \<ge> 4 \<and> [0, 100, 200, 300, 400 :: real] \<noteq> []
   \<and> last [0, 100, 200, 300, 400 :: real] - hd [0, 100, 200, 300, 400 :: real] > 0
   \<and> compute_ldlj find_peaks [0, 0, 0, 0, 0] [0, 0, 0, 0, 0] [0, 0, 0, 0, 0]
         [0, 100, 200, 300, 400] (Some [1, 2, 3, 2, 1]) = (60, 40)"
proof -
  have d1: "np_diff [1,2,3,2,1] = [1,1,-1,-1]" by (simp add: np_diff_def)
  have v1: "ldlj_velocity [1,2,3,2,1] 0.1 = [10,10,-10,-10]" by (simp add: ldlj_velocity_def d1)
  have d2: "np_diff [10,10,-10,-10] = [0,-20,0]" by (simp add: np_diff_def)
  have d3: "np_diff [1,1,-1,-1] = [0,-2,0]" by (simp add: np_diff_def)
  have r1: "ldlj_rom [1,2,3,2,1] = 2" by (simp add: ldlj_rom_def)
  have p1: "find_peaks [1,2,3,2,1] None 0.1 = [2]"
    by (simp add: find_peaks_def local_maxima_def plateau_end_def peak_prominence_def)
  have p2: "find_peaks [-1,-2,-3,-2,-1] None 0.1 = []"
    by (simp add: find_peaks_def local_maxima_def plateau_end_def peak_prominence_def)
  have nj: "ldlj_normalized_jerk [1,2,3,2,1] 0.1 = 100/3"
    by (simp add: ldlj_normalized_jerk_def v1 d2 r1 np_mean_def)
  have dr: "ldlj_direction_rate [1,2,3,2,1] 0.4 0.1 = 2.5"
    by (simp add: ldlj_direction_rate_def v1 d3)
  have ep: "ldlj_excess_peaks find_peaks [1,2,3,2,1] = 0"
    by (simp add: ldlj_excess_peaks_def r1 p1 p2)
  have sc: "ldlj_scores find_peaks [1,2,3,2,1] 0.4 0.1 = (60, 40)"
    unfolding ldlj_scores_def nj dr ep by simp
  have dur: "(last [0, 100, 200, 300, 400 :: real] - hd [0, 100, 200, 300, 400 :: real]) / 1000.0 = 0.4"
    "(0.4::real) / (real (length [0, 100, 200, 300, 400 :: real]) - 1) = 0.1" "\<not> (0.4::real) \<le> 0"
    by simp_all
  have t: "compute_ldlj_try find_peaks [0, 0, 0, 0, 0] [0, 0, 0, 0, 0] [0, 0, 0, 0, 0]
         [0, 100, 200, 300, 400] (Some [1, 2, 3, 2, 1]) = Inr (60, 40)"
    unfolding compute_ldlj_try_def Let_def dur sc [symmetric] by simp
  have h: "length [0, 0, 0, 0, 0 :: real] \<ge> 4" "[0, 100, 200, 300, 400 :: real] \<noteq> []"
    "last [0, 100, 200, 300, 400 :: real] - hd [0, 100, 200, 300, 400 :: real] > 0"
    by simp_all
  from ldlj_sum_100 [OF h t] h show ?thesis by blast
qed

text \<open>
  C3 as stated fails on a rep of three samples: the scores are 0 and 50, which sum to 50.
\<close>

theorem ldlj_short_rep_counterexample:
  "fst (compute_ldlj find_peaks [9.8, 10.1, 9.9] [0, 0, 0] [0, 0, 0] [0, 100, 200] None)
   + snd (compute_ldlj find_peaks [9.8, 10.1, 9.9] [0, 0, 0] [0, 0, 0] [0, 100, 200] None) = 50"
  by (simp add: compute_ldlj_def compute_ldlj_try_def)

text \<open>
  C10. For every rep with fewer than four samples, or with a last timestamp not after the
  first, \<open>compute_ldlj\<close> returns the fixed pair irregularity 0, smoothness 50, whatever
  the signal and the peak detector are; and it returns the same pair whenever the body of
  the \<open>try\<close> block raises.
\<close>

theorem ldlj_neutral_default:
  assumes "length accel_x < 4
         \<or> (timestamps_ms \<noteq> [] \<and> last timestamps_ms - hd timestamps_ms \<le> 0)
         \<or> (\<exists>e. compute_ldlj_try fp accel_x accel_y accel_z timestamps_ms filtered_mag = Inl e)"
  shows "compute_ldlj fp accel_x accel_y accel_z timestamps_ms filtered_mag = (0, 50)"
  using assms
  by (auto simp: compute_ldlj_def compute_ldlj_try_def Let_def)

text \<open>
  Three reps: one of three samples, one whose first and last timestamps are both 500,
  and one whose y axis has two samples against five, which makes numpy raise.
\<close>

theorem ldlj_neutral_default_witness:
  "length [1, 2, 3 :: real] < 4
   \<and> compute_ldlj find_peaks [1, 2, 3] [0, 0, 0] [0, 0, 0] [0, 100, 200] None = (0, 50)
   \<and> [500, 600, 700, 600, 500 :: real] \<noteq> []
   \<and> last [500, 600, 700, 600, 500 :: real] - hd [500, 600, 700, 600, 500 :: real] \<le> 0
   \<and> compute_ldlj find_peaks [1, 2, 3, 2, 1] [0, 0, 0, 0, 0] [0, 0, 0, 0, 0]
        [500, 600, 700, 600, 500] None = (0, 50)
   \<and> compute_ldlj_try find_peaks [1, 2, 3, 2, 1] [0, 0] [0, 0, 0, 0, 0]
        [0, 100, 200, 300, 400] None = Inl ValueError
   \<and> compute_ldlj find_peaks [1, 2, 3, 2, 1] [0, 0] [0, 0, 0, 0, 0]
        [0, 100, 200, 300, 400] None = (0, 50)"
proof -
  have e: "compute_ldlj_try find_peaks [1, 2, 3, 2, 1] [0, 0] [0, 0, 0, 0, 0]
        [0, 100, 200, 300, 400] None = Inl ValueError"
    by (simp add: compute_ldlj_try_def accel_magnitude_def np_binop_def)
  show ?thesis
    using ldlj_neutral_default [of "[1, 2, 3]" "[0, 100, 200]" find_peaks "[0, 0, 0]" "[0, 0, 0]" None]
      ldlj_neutral_default [of "[1, 2, 3, 2, 1]" "[500, 600, 700, 600, 500]" find_peaks
         "[0, 0, 0, 0, 0]" "[0, 0, 0, 0, 0]" None]
      ldlj_neutral_default [of "[1, 2, 3, 2, 1]" "[0, 100, 200, 300, 400]" find_peaks
         "[0, 0]" "[0, 0, 0, 0, 0]" None]
      e
    by simp
qed

subsection \<open>The phase split\<close>








lemmas find_peaks_defs = find_peaks_def local_maxima_def plateau_end_def peak_prominence_def





subsection \<open>Boundaries and durations of the reps\<close>

lemma filter_valleys_accepts:
  assumes "filter_valleys timestamps prof acc valley_indices = Inr valid" and "acc \<noteq> []"
  shows "\<exists>ys. valid = acc @ ys
          \<and> (\<forall>i. Suc i < length (last acc # ys) \<longrightarrow>
                 min_rep_duration_ms prof
                   \<le> timestamps ! ((last acc # ys) ! Suc i) - timestamps ! ((last acc # ys) ! i)
               \<and> timestamps ! ((last acc # ys) ! Suc i) - timestamps ! ((last acc # ys) ! i)
                   \<le> max_rep_duration_ms prof)
          \<and> (\<forall>y \<in> set ys. y \<in> set valley_indices \<and> y < length timestamps)"
  using assms
proof (induction valley_indices arbitrary: acc)
  case Nil
  then show ?case by simp
next
  case (Cons idx rest)
  from Cons.prems(1) have inr: "idx < length timestamps"
    by (simp split: if_splits)
  let ?d = "timestamps ! idx - timestamps ! last acc"
  show ?case
  proof (cases "min_rep_duration_ms prof \<le> ?d \<and> ?d \<le> max_rep_duration_ms prof")
    case True
    with Cons.prems inr have "filter_valleys timestamps prof (acc @ [idx]) rest = Inr valid"
      by (simp add: Let_def)
    from Cons.IH [OF this] obtain ys where ys: "valid = (acc @ [idx]) @ ys"
      and d: "\<forall>i. Suc i < length (idx # ys) \<longrightarrow>
                 min_rep_duration_ms prof
                   \<le> timestamps ! ((idx # ys) ! Suc i) - timestamps ! ((idx # ys) ! i)
               \<and> timestamps ! ((idx # ys) ! Suc i) - timestamps ! ((idx # ys) ! i)
                   \<le> max_rep_duration_ms prof"
      and m: "\<forall>y \<in> set ys. y \<in> set rest \<and> y < length timestamps"
      by auto
    have "\<forall>i. Suc i < length (last acc # idx # ys) \<longrightarrow>
                 min_rep_duration_ms prof
                   \<le> timestamps ! ((last acc # idx # ys) ! Suc i)
                      - timestamps ! ((last acc # idx # ys) ! i)
               \<and> timestamps ! ((last acc # idx # ys) ! Suc i)
                      - timestamps ! ((last acc # idx # ys) ! i)
                   \<le> max_rep_duration_ms prof"
    proof (intro allI impI)
      fix i assume "Suc i < length (last acc # idx # ys)"
      then show "min_rep_duration_ms prof
                   \<le> timestamps ! ((last acc # idx # ys) ! Suc i)
                      - timestamps ! ((last acc # idx # ys) ! i)
               \<and> timestamps ! ((last acc # idx # ys) ! Suc i)
                      - timestamps ! ((last acc # idx # ys) ! i)
                   \<le> max_rep_duration_ms prof"
        using True d by (cases i) auto
    qed
    with ys m inr show ?thesis
      by (intro exI [of _ "idx # ys"]) auto
  next
    case False
    with Cons.prems inr have "filter_valleys timestamps prof acc rest = Inr valid"
      by (auto simp: Let_def)
    from Cons.IH [OF this Cons.prems(2)] show ?thesis by auto
  qed
qed

lemma filter_valleys_from_start:
  assumes "filter_valleys timestamps prof [0] valley_indices = Inr valid"
  shows "valid \<noteq> []" and "valid ! 0 = 0"
    and "\<And>i. Suc i < length valid \<Longrightarrow>
           min_rep_duration_ms prof \<le> timestamps ! (valid ! Suc i) - timestamps ! (valid ! i)
         \<and> timestamps ! (valid ! Suc i) - timestamps ! (valid ! i) \<le> max_rep_duration_ms prof"
    and "\<And>i. Suc i < length valid \<Longrightarrow> valid ! Suc i < length timestamps"
proof -
  from filter_valleys_accepts [OF assms] obtain ys where ys: "valid = [0] @ ys"
    and d: "\<forall>i. Suc i < length (last [0::nat] # ys) \<longrightarrow>
                 min_rep_duration_ms prof
                   \<le> timestamps ! ((last [0] # ys) ! Suc i) - timestamps ! ((last [0] # ys) ! i)
               \<and> timestamps ! ((last [0] # ys) ! Suc i) - timestamps ! ((last [0] # ys) ! i)
                   \<le> max_rep_duration_ms prof"
    and m: "\<forall>y \<in> set ys. y \<in> set valley_indices \<and> y < length timestamps"
    by blast
  from ys have v: "valid = last [0] # ys" by simp
  show "valid \<noteq> []" "valid ! 0 = 0" using ys by simp_all
  show "min_rep_duration_ms prof \<le> timestamps ! (valid ! Suc i) - timestamps ! (valid ! i)
         \<and> timestamps ! (valid ! Suc i) - timestamps ! (valid ! i) \<le> max_rep_duration_ms prof"
    if "Suc i < length valid" for i
    using d that unfolding v by blast
  show "valid ! Suc i < length timestamps" if "Suc i < length valid" for i
    using m that ys by auto
qed

lemma add_tail_valley_extends:
  assumes "add_tail_valley fp timestamps signal_smooth prof min_distance min_prominence valid
             = Inr valid'"
  shows "\<exists>extra. valid' = valid @ extra \<and> length extra \<le> 1"
  using assms
  by (auto simp: add_tail_valley_def Let_def split: if_splits sum.splits)

lemma build_reps_nth:
  assumes "build_reps timestamps signal signal_smooth k valid = Inr infos"
  shows "length infos = length valid - 1
       \<and> (\<forall>i. Suc i < length valid \<longrightarrow>
             valid ! i < valid ! Suc i
           \<and> infos ! i = make_rep_info timestamps signal signal_smooth (k + i) (valid ! i)
                            (valid ! Suc i - 1) (Some (valid ! Suc i)))"
  using assms
proof (induction timestamps signal signal_smooth k valid arbitrary: infos rule: build_reps.induct)
  case (1 timestamps signal signal_smooth rep_num start_i end_i rest)
  from "1.prems" have lt: "start_i < end_i" by (simp split: if_splits)
  with "1.prems" obtain tl_infos where
    tl: "build_reps timestamps signal signal_smooth (Suc rep_num) (end_i # rest) = Inr tl_infos"
    and infos: "infos = make_rep_info timestamps signal signal_smooth rep_num start_i (end_i - 1)
                          (Some end_i) # tl_infos"
    by (auto split: sum.splits)
  from "1.IH" [OF _ tl] lt have ih: "length tl_infos = length (end_i # rest) - 1"
    "\<forall>i. Suc i < length (end_i # rest) \<longrightarrow>
             (end_i # rest) ! i < (end_i # rest) ! Suc i
           \<and> tl_infos ! i = make_rep_info timestamps signal signal_smooth (Suc rep_num + i)
                               ((end_i # rest) ! i) ((end_i # rest) ! Suc i - 1)
                               (Some ((end_i # rest) ! Suc i))"
    by auto
  show ?case
  proof (intro conjI allI impI)
    show "length infos = length (start_i # end_i # rest) - 1" using ih(1) infos by simp
  next
    fix i assume i: "Suc i < length (start_i # end_i # rest)"
    show "(start_i # end_i # rest) ! i < (start_i # end_i # rest) ! Suc i"
      using i ih(2) lt by (cases i) auto
    show "infos ! i = make_rep_info timestamps signal signal_smooth (rep_num + i)
                        ((start_i # end_i # rest) ! i) ((start_i # end_i # rest) ! Suc i - 1)
                        (Some ((start_i # end_i # rest) ! Suc i))"
      using i ih(2) infos by (cases i) auto
  qed
qed simp_all

lemma make_rep_info_fields:
  "rep (make_rep_info ts signal sm k a b nx) = k"
  "start_idx (make_rep_info ts signal sm k a b nx) = a"
  "end_idx (make_rep_info ts signal sm k a b nx) = b"
  "next_rep_start_idx (make_rep_info ts signal sm k a b nx) = nx"
  "start_time_ms (make_rep_info ts signal sm k a b nx) = ts ! a"
  "end_time_ms (make_rep_info ts signal sm k a b nx) = ts ! b"
  "duration_ms (make_rep_info ts signal sm k a b nx) = ts ! b - ts ! a"
  by (simp_all add: make_rep_info_def Let_def)

text \<open>
  C4, as the code has it. Every boundary accepted by the duration filter lies at least
  \<open>min_rep_duration_ms\<close> and at most \<open>max_rep_duration_ms\<close> after the boundary accepted
  before it (the first being row 0). The rep between two such boundaries starts at the
  first and ends one row before the second, so its \<open>duration_ms\<close> is measured to that
  last row: with non-decreasing timestamps it is at most \<open>max_rep_duration_ms\<close>, and it
  is not checked against \<open>min_rep_duration_ms\<close>. Nothing is said of the rep that ends at
  a boundary from the tail search, of the final segment, or of the reps of the guided
  fallback: the code does not check their durations.
\<close>

theorem accepted_rep_durations:
  assumes cand: "valley_candidates savgol fp ex ts signal mn mx = Inr (d, vi, p)"
    and acc: "filter_valleys ts (exercise_profile ex mn mx) [0] vi = Inr accepted"
    and res: "resegment_single_source savgol fp ex ts signal rep_column mn mx = Inr (labels, infos)"
    and i: "Suc i < length accepted"
    and sorted: "sorted ts"
  shows "i < length infos
       \<and> rep (infos ! i) = Suc i
       \<and> start_idx (infos ! i) = accepted ! i
       \<and> end_idx (infos ! i) = accepted ! Suc i - 1
       \<and> next_rep_start_idx (infos ! i) = Some (accepted ! Suc i)
       \<and> min_rep_duration_ms (exercise_profile ex mn mx)
            \<le> ts ! (accepted ! Suc i) - start_time_ms (infos ! i)
       \<and> ts ! (accepted ! Suc i) - start_time_ms (infos ! i)
            \<le> max_rep_duration_ms (exercise_profile ex mn mx)
       \<and> duration_ms (infos ! i) = ts ! (accepted ! Suc i - 1) - ts ! (accepted ! i)
       \<and> duration_ms (infos ! i) \<le> max_rep_duration_ms (exercise_profile ex mn mx)"
proof -
  let ?prof = "exercise_profile ex mn mx"
  let ?sm = "smooth_signal savgol ex signal"
  from res obtain valid where b: "rep_boundaries savgol fp ex ts signal rep_column mn mx = Inr valid"
    by (auto simp: resegment_single_source_def split: sum.splits)
  from b cand acc obtain tl where
    tl: "add_tail_valley fp ts ?sm ?prof d p accepted = Inr tl"
    and valid: "valid = (if length tl \<le> 1 \<and> length (original_reps rep_column) \<ge> 1
                         then guided_boundaries ?sm (the rep_column) else tl)"
    by (auto simp: rep_boundaries_def Let_def split: sum.splits if_splits)
  from add_tail_valley_extends [OF tl] obtain extra where extra: "tl = accepted @ extra"
    by blast
  with i have "length tl \<ge> 2" by simp
  with valid extra have v: "valid = accepted @ extra" by simp
  from res b obtain infos0 where
    infos0: "build_reps ts signal ?sm 1 valid = Inr infos0"
    and infos: "infos = infos0 @ last_segment ts signal ?sm valid"
    by (auto simp: resegment_single_source_def Let_def split: sum.splits if_splits)
  from i v have iv: "Suc i < length valid" by simp
  from build_reps_nth [OF infos0] iv have
    len: "i < length infos0"
    and nth: "infos0 ! i = make_rep_info ts signal ?sm (1 + i) (valid ! i)
                             (valid ! Suc i - 1) (Some (valid ! Suc i))"
    and lt: "valid ! i < valid ! Suc i"
    by auto
  from i v have vi: "valid ! i = accepted ! i" "valid ! Suc i = accepted ! Suc i"
    by (simp_all add: nth_append)
  have inf: "infos ! i = make_rep_info ts signal ?sm (Suc i) (accepted ! i)
                             (accepted ! Suc i - 1) (Some (accepted ! Suc i))"
    using len nth vi infos by (simp add: nth_append)
  note f = filter_valleys_from_start [OF acc]
  from f(3) [OF i] have dur:
    "min_rep_duration_ms ?prof \<le> ts ! (accepted ! Suc i) - ts ! (accepted ! i)"
    "ts ! (accepted ! Suc i) - ts ! (accepted ! i) \<le> max_rep_duration_ms ?prof"
    by simp_all
  from f(4) [OF i] have inr: "accepted ! Suc i < length ts" .
  then have "ts ! (accepted ! Suc i - 1) \<le> ts ! (accepted ! Suc i)"
    using sorted by (intro sorted_nth_mono) simp_all
  with dur(2) have le: "ts ! (accepted ! Suc i - 1) - ts ! (accepted ! i)
                          \<le> max_rep_duration_ms ?prof" by simp
  from len infos have "i < length infos" by simp
  then show ?thesis
    unfolding inf make_rep_info_fields using dur le by simp
qed

text \<open>The frame with two valleys, stage by stage.\<close>

lemma min_distance_250: "estimate_min_distance UNKNOWN ts_250 = Inr 2"
  by (simp add: estimate_min_distance_def ts_250_def np_diff_def np_median_def weight_stack_def py_int_def)

lemma smooth_short: "length signal \<le> 11 \<Longrightarrow> smooth_signal savgol UNKNOWN signal = signal"
  by (simp add: smooth_signal_def weight_stack_def)

lemma smooth_examples:
  "smooth_signal no_filter UNKNOWN signal_two_valleys = signal_two_valleys"
  "smooth_signal no_filter UNKNOWN signal_early_valleys = signal_early_valleys"
  "smooth_signal no_filter UNKNOWN signal_flat = signal_flat"
  by (rule smooth_short, simp add: signal_two_valleys_def signal_early_valleys_def signal_flat_def)+

lemma std_two_valleys: "np_std signal_two_valleys = 0.7"
  by (simp add: np_std_def np_mean_def signal_two_valleys_def power2_eq_square real_sqrt_divide)

lemma prominence_two_valleys:
  "adaptive_prominence (exercise_profile UNKNOWN 800 8000) signal_two_valleys = 0.35"
  unfolding adaptive_prominence_def Let_def std_two_valleys by (simp add: signal_two_valleys_def)

lemma valleys_two_valleys: "find_valleys find_peaks signal_two_valleys 2 0.35 = Inr [4, 8]"
  by (simp add: find_valleys_def scipy_find_peaks_def signal_two_valleys_def find_peaks_defs)

lemma detect_two_valleys: "detect_valleys find_peaks signal_two_valleys 2 0.35 = Inr ([4, 8], 0.35)"
  unfolding detect_valleys_def valleys_two_valleys by simp

lemma candidates_two_valleys:
  "valley_candidates no_filter find_peaks UNKNOWN ts_250 signal_two_valleys 800 8000
     = Inr (2, [4, 8], 0.35)"
proof -
  have ne: "signal_two_valleys \<noteq> []" by (simp add: signal_two_valleys_def)
  show ?thesis
    using ne
    unfolding valley_candidates_def Let_def smooth_examples prominence_two_valleys
      min_distance_250 sum.case detect_two_valleys prod.case
    by simp
qed

lemma filter_two_valleys:
  "filter_valleys ts_250 (exercise_profile UNKNOWN 800 8000) [0] [4, 8] = Inr [0, 4, 8]"
  by (simp add: ts_250_def)

lemma tail_two_valleys:
  "add_tail_valley find_peaks ts_250 signal_two_valleys (exercise_profile UNKNOWN 800 8000) 2 0.35 [0, 4, 8]
     = Inr [0, 4, 8]"
  by (simp add: add_tail_valley_def ts_250_def)

lemma boundaries_two_valleys:
  "rep_boundaries no_filter find_peaks UNKNOWN ts_250 signal_two_valleys (Some reps_unlabelled) 800 8000
     = Inr [0, 4, 8]"
  unfolding rep_boundaries_def Let_def candidates_two_valleys sum.case prod.case
    smooth_examples filter_two_valleys tail_two_valleys
  by simp

lemma reps_two_valleys:
  "build_reps ts_250 signal_two_valleys signal_two_valleys 1 [0, 4, 8]
     = Inr (take 2 reps_of_two_valleys)"
  by (simp add: make_rep_info_def ts_250_def signal_two_valleys_def np_argmax_def
      reps_of_two_valleys_def)

lemma last_two_valleys:
  "last_segment ts_250 signal_two_valleys signal_two_valleys [0, 4, 8]
     = drop 2 reps_of_two_valleys"
  by (simp add: last_segment_def make_rep_info_def ts_250_def signal_two_valleys_def np_argmax_def
      reps_of_two_valleys_def)

lemma labels_two_valleys:
  "rep_labels 10 reps_of_two_valleys = [1, 1, 1, 1, 2, 2, 2, 2, 3, 3]"
  by (simp add: rep_labels_def assign_rep_def reps_of_two_valleys_def eval_nat_numeral upt_rec)

lemma resegment_two_valleys:
  "resegment_single_source no_filter find_peaks UNKNOWN ts_250 signal_two_valleys
     (Some reps_unlabelled) 800 8000
   = Inr ([1, 1, 1, 1, 2, 2, 2, 2, 3, 3], reps_of_two_valleys)"
proof -
  have l: "length signal_two_valleys = 10" by (simp add: signal_two_valleys_def)
  have ix: "\<not> (\<exists>v \<in> set (take 10 [0, 4, 8::nat]). v \<ge> length ts_250)"
    by (simp add: ts_250_def)
  have ap: "take 2 reps_of_two_valleys @ drop 2 reps_of_two_valleys = reps_of_two_valleys"
    by simp
  show ?thesis
    using ix
    unfolding resegment_single_source_def boundaries_two_valleys sum.case Let_def
      smooth_examples reps_two_valleys last_two_valleys ap l labels_two_valleys
    by simp
qed

text \<open>
  The frame with two valleys: both are accepted, 1000 ms after the boundary before them,
  and the second rep runs from row 4 to row 7.
\<close>

theorem accepted_rep_durations_witness:
  "valley_candidates no_filter find_peaks UNKNOWN ts_250 signal_two_valleys 800 8000
     = Inr (2, [4, 8], 0.35)
   \<and> filter_valleys ts_250 (exercise_profile UNKNOWN 800 8000) [0] [4, 8] = Inr [0, 4, 8]
   \<and> resegment_single_source no_filter find_peaks UNKNOWN ts_250 signal_two_valleys
         (Some reps_unlabelled) 800 8000
       = Inr ([1, 1, 1, 1, 2, 2, 2, 2, 3, 3], reps_of_two_valleys)
   \<and> Suc 1 < length [0, 4, 8 :: nat] \<and> sorted ts_250
   \<and> start_idx (reps_of_two_valleys ! 1) = 4
   \<and> next_rep_start_idx (reps_of_two_valleys ! 1) = Some 8
   \<and> ts_250 ! 8 - start_time_ms (reps_of_two_valleys ! 1) = 1000
   \<and> duration_ms (reps_of_two_valleys ! 1) \<le> 8000"
proof -
  have i: "Suc 1 < length [0, 4, 8 :: nat]" by simp
  have s: "sorted ts_250" by (simp add: ts_250_def)
  have p: "max_rep_duration_ms (exercise_profile UNKNOWN 800 8000) = 8000" by simp
  have n: "[0, 4, 8 :: nat] ! 1 = 4" "[0, 4, 8 :: nat] ! Suc 1 = 8" by simp_all
  have t: "ts_250 ! 8 - start_time_ms (reps_of_two_valleys ! 1) = 1000"
    by (simp add: ts_250_def reps_of_two_valleys_def)
  from accepted_rep_durations [OF candidates_two_valleys filter_two_valleys
      resegment_two_valleys i s]
  have "start_idx (reps_of_two_valleys ! 1) = 4
      \<and> next_rep_start_idx (reps_of_two_valleys ! 1) = Some 8
      \<and> duration_ms (reps_of_two_valleys ! 1) \<le> 8000"
    unfolding p n by blast
  with candidates_two_valleys filter_two_valleys resegment_two_valleys i s t
  show ?thesis by blast
qed

text \<open>
  C4 as stated fails on the same frame, which is segmented at the boundaries 0, 4 and 8
  and is not degenerate: the three reps have \<open>duration_ms\<close> 750, 750 and 250, all below
  the minimum of 800, the first rep and the final rep included.
\<close>

theorem short_reps_counterexample:
  "resegment_single_source no_filter find_peaks UNKNOWN ts_250 signal_two_valleys
         (Some reps_unlabelled) 800 8000
       = Inr ([1, 1, 1, 1, 2, 2, 2, 2, 3, 3], reps_of_two_valleys)
   \<and> rep_boundaries no_filter find_peaks UNKNOWN ts_250 signal_two_valleys
         (Some reps_unlabelled) 800 8000 = Inr [0, 4, 8]
   \<and> map duration_ms reps_of_two_valleys = [750, 750, 250]
   \<and> min_rep_duration_ms (exercise_profile UNKNOWN 800 8000) = 800"
  using resegment_two_valleys boundaries_two_valleys
  by (simp add: reps_of_two_valleys_def)

text \<open>The flat frame, stage by stage, with and without rep labels.\<close>

lemma std_flat: "np_std signal_flat = 0.3"
  by (simp add: np_std_def np_mean_def signal_flat_def power2_eq_square real_sqrt_divide)

lemma prominence_flat:
  "adaptive_prominence (exercise_profile UNKNOWN 800 8000) signal_flat = 0.15"
  unfolding adaptive_prominence_def Let_def std_flat by (simp add: signal_flat_def)

lemma no_peaks_flat:
  "find_peaks signal_flat distance prominence = []"
  "find_peaks (map uminus signal_flat) distance prominence = []"
  by (simp_all add: find_peaks_defs signal_flat_def split: option.splits)

lemma detect_flat: "detect_valleys find_peaks signal_flat 2 0.15 = Inr ([], 0.15)"
  by (simp add: detect_valleys_def find_valleys_def scipy_find_peaks_def no_peaks_flat)

lemma candidates_flat:
  "valley_candidates no_filter find_peaks UNKNOWN ts_250 signal_flat 800 8000 = Inr (2, [], 0.15)"
proof -
  have ne: "signal_flat \<noteq> []" by (simp add: signal_flat_def)
  show ?thesis
    using ne
    unfolding valley_candidates_def Let_def smooth_examples prominence_flat
      min_distance_250 sum.case detect_flat prod.case
    by simp
qed

lemma tail_flat:
  "add_tail_valley find_peaks ts_250 signal_flat (exercise_profile UNKNOWN 800 8000) 2 0.15 [0]
     = Inr [0]"
proof -
  have d: "drop (last [0::nat]) signal_flat = signal_flat" by simp
  show ?thesis
    unfolding add_tail_valley_def Let_def d find_valleys_def scipy_find_peaks_def no_peaks_flat
    by (simp add: ts_250_def signal_flat_def)
qed

lemma original_reps_examples:
  "original_reps (Some reps_unlabelled) = []" "original_reps (Some reps_two_labels) = [1, 2]"
  by (simp_all add: original_reps_def reps_unlabelled_def reps_two_labels_def)

lemma guided_flat:
  "search_window [0, 1, 2, 3, 4] = 10" "guided_valley signal_flat [0, 1, 2, 3, 4] = Some 9"
  "guided_valley signal_flat [5, 6, 7, 8, 9] = Some 9"
  by (simp_all add: guided_valley_def search_window_def np_argmin_def signal_flat_def)

lemma rows_two_labels:
  "filter (\<lambda>i. reps_two_labels ! i = 1) [0..<length reps_two_labels] = [0, 1, 2, 3, 4]"
  "filter (\<lambda>i. reps_two_labels ! i = 2) [0..<length reps_two_labels] = [5, 6, 7, 8, 9]"
  by (simp_all add: reps_two_labels_def upt_rec)

lemma guided_boundaries_flat: "guided_boundaries signal_flat reps_two_labels = [0, 9]"
proof -
  have "guided_loop signal_flat reps_two_labels [1, 2] [0] = [0, 9]"
    unfolding guided_loop.simps Let_def rows_two_labels guided_flat option.case
    by simp
  then show ?thesis
    unfolding guided_boundaries_def original_reps_examples Let_def
    by (simp add: reps_two_labels_def)
qed

lemma boundaries_flat:
  "rep_boundaries no_filter find_peaks UNKNOWN ts_250 signal_flat (Some reps_two_labels) 800 8000
     = Inr [0, 9]"
  "rep_boundaries no_filter find_peaks UNKNOWN ts_250 signal_flat (Some reps_unlabelled) 800 8000
     = Inr [0]"
  unfolding rep_boundaries_def Let_def candidates_flat sum.case prod.case
    smooth_examples filter_valleys.simps tail_flat original_reps_examples guided_boundaries_flat
    option.sel
  by simp_all

lemma resegment_flat_guided:
  "resegment_single_source no_filter find_peaks UNKNOWN ts_250 signal_flat
     (Some reps_two_labels) 800 8000
   = Inr ([1, 1, 1, 1, 1, 1, 1, 1, 1, 0], [rep_of_flat_guided])"
proof -
  have l: "length signal_flat = 10" by (simp add: signal_flat_def)
  have ix: "\<not> (\<exists>v \<in> set (take 10 [0, 9::nat]). v \<ge> length ts_250)"
    by (simp add: ts_250_def)
  have b: "build_reps ts_250 signal_flat signal_flat 1 [0, 9] = Inr [rep_of_flat_guided]"
    by (simp add: make_rep_info_def ts_250_def signal_flat_def np_argmax_def rep_of_flat_guided_def)
  have s: "last_segment ts_250 signal_flat signal_flat [0, 9] = []"
    by (simp add: last_segment_def signal_flat_def)
  have lab: "rep_labels 10 [rep_of_flat_guided] = [1, 1, 1, 1, 1, 1, 1, 1, 1, 0]"
    by (simp add: rep_labels_def assign_rep_def rep_of_flat_guided_def eval_nat_numeral upt_rec)
  show ?thesis
    using ix
    unfolding resegment_single_source_def boundaries_flat sum.case Let_def
      smooth_examples b s l append_Nil2 lab
    by simp
qed

lemma resegment_flat_unlabelled:
  "resegment_single_source no_filter find_peaks UNKNOWN ts_250 signal_flat
     (Some reps_unlabelled) 800 8000
   = Inr ([1, 1, 1, 1, 1, 1, 1, 1, 1, 1], [rep_of_flat_unlabelled])"
proof -
  have l: "length signal_flat = 10" by (simp add: signal_flat_def)
  have ix: "\<not> (\<exists>v \<in> set (take 10 [0::nat]). v \<ge> length ts_250)"
    by (simp add: ts_250_def)
  have b: "build_reps ts_250 signal_flat signal_flat 1 [0] = Inr []"
    by simp
  have s: "last_segment ts_250 signal_flat signal_flat [0] = [rep_of_flat_unlabelled]"
    by (simp add: last_segment_def make_rep_info_def ts_250_def signal_flat_def np_argmax_def
        rep_of_flat_unlabelled_def)
  have lab: "rep_labels 10 [rep_of_flat_unlabelled] = [1, 1, 1, 1, 1, 1, 1, 1, 1, 1]"
    by (simp add: rep_labels_def assign_rep_def rep_of_flat_unlabelled_def eval_nat_numeral upt_rec)
  show ?thesis
    using ix
    unfolding resegment_single_source_def boundaries_flat sum.case Let_def
      smooth_examples b s l append_Nil lab
    by simp
qed

text \<open>
  C5 on the flat frame with two labelled reps. No valley and no peak is detected, so the
  boundaries come from the labels: rows 0 and 9. The only rep covers the rows 0 to 8,
  and row 9, the last sample, keeps the label 0: it lies after the first boundary and
  belongs to no rep. The final boundary that the guided fallback appends is the last
  row itself, and the segment builder treats a boundary as the first row of the next rep.
\<close>

theorem guided_fallback_last_sample_unassigned:
  "rep_boundaries no_filter find_peaks UNKNOWN ts_250 signal_flat (Some reps_two_labels) 800 8000
     = Inr [0, 9]
   \<and> resegment_single_source no_filter find_peaks UNKNOWN ts_250 signal_flat
        (Some reps_two_labels) 800 8000
      = Inr ([1, 1, 1, 1, 1, 1, 1, 1, 1, 0], [rep_of_flat_guided])
   \<and> end_idx rep_of_flat_guided = 8
   \<and> [1, 1, 1, 1, 1, 1, 1, 1, 1, 0 :: nat] ! 9 = 0"
  using boundaries_flat(1) resegment_flat_guided
  by (simp add: rep_of_flat_guided_def)

subsection \<open>The fallback ladder\<close>

lemma np_argmin_less:
  assumes "xs \<noteq> []"
  shows "np_argmin xs < length xs"
proof -
  have "Min (set xs) \<in> set xs" using assms by (intro Min_in) simp_all
  then have "takeWhile (\<lambda>v. v \<noteq> Min (set xs)) xs \<noteq> xs"
    by (auto simp: takeWhile_eq_all_conv)
  moreover have "length (takeWhile (\<lambda>v. v \<noteq> Min (set xs)) xs) \<le> length xs"
    by (rule length_takeWhile_le)
  ultimately show ?thesis
    unfolding np_argmin_def
    by (metis le_neq_implies_less takeWhile_eq_take take_all_iff order_refl)
qed

lemma np_argmin_le:
  assumes "i < length xs"
  shows "xs ! np_argmin xs \<le> xs ! i"
proof -
  from assms have ne: "xs \<noteq> []" by auto
  have "xs ! np_argmin xs = Min (set xs)"
    using np_argmin_less [OF ne] nth_length_takeWhile [of "\<lambda>v. v \<noteq> Min (set xs)" xs]
    unfolding np_argmin_def by simp
  moreover have "Min (set xs) \<le> xs ! i" using assms by simp
  ultimately show ?thesis by simp
qed

lemma guided_valley_window:
  assumes "guided_valley sm rows = Some b"
  defines "w \<equiv> max ((last rows - hd rows) div 5) 10"
  defines "lo \<equiv> last rows - w"
  defines "hi \<equiv> min (length sm) (last rows + w)"
  shows "lo \<le> b" and "b < hi" and "hi - lo > 3"
    and "\<And>j. lo \<le> j \<Longrightarrow> j < hi \<Longrightarrow> sm ! b \<le> sm ! j"
proof -
  let ?win = "take (hi - lo) (drop lo sm)"
  have sw: "search_window rows = w" by (simp add: search_window_def w_def Let_def)
  from assms(1) have len: "length ?win > 3" and b: "b = lo + np_argmin ?win"
    unfolding guided_valley_def Let_def sw lo_def hi_def
    by (auto split: if_splits)
  have hl: "hi \<le> length sm" by (simp add: hi_def)
  then have lw: "length ?win = hi - lo" by auto
  from len have ne: "?win \<noteq> []" by auto
  from np_argmin_less [OF ne] lw have a: "np_argmin ?win < hi - lo" by simp
  show "lo \<le> b" by (simp add: b)
  show "b < hi" using a by (simp add: b)
  show "hi - lo > 3" using len lw by simp
  show "sm ! b \<le> sm ! j" if "lo \<le> j" "j < hi" for j
  proof -
    from that lw have j: "j - lo < length ?win" by simp
    from np_argmin_le [OF j] have "?win ! np_argmin ?win \<le> ?win ! (j - lo)" .
    moreover have "?win ! np_argmin ?win = sm ! b"
      using a hl by (simp add: b)
    moreover have "?win ! (j - lo) = sm ! j"
      using that hl by simp
    ultimately show ?thesis by simp
  qed
qed

lemma detect_valleys_ladder:
  assumes "1 \<le> d"
  shows "detect_valleys fp sm d p =
     Inr (let v0 = fp (map uminus sm) (Some (nat d)) p;
              v1 = fp (map uminus sm) (Some (nat d)) (p * 0.5);
              v2 = fp (map uminus sm) (Some (nat d)) (p * 0.25);
              v3 = fp (map uminus sm) (Some (nat d)) (p * 0.1);
              pk = fp sm (Some (nat d)) (p * 0.5)
          in if length v0 \<ge> 2 then (v0, p)
             else if length v1 \<ge> 2 then (v1, p * 0.5)
             else if length v2 \<ge> 2 then (v2, p * 0.25)
             else if length v3 \<ge> 2 then (v3, p * 0.1)
             else if length pk \<ge> 2 then (pk, p)
             else (v3, p))"
  using assms
  by (simp add: detect_valleys_def find_valleys_def scipy_find_peaks_def Let_def not_less)

lemma rep_boundaries_stages:
  assumes "rep_boundaries savgol fp ex ts signal rep_column mn mx = Inr bs"
  shows "\<exists>d vi p acc tl.
           valley_candidates savgol fp ex ts signal mn mx = Inr (d, vi, p)
         \<and> filter_valleys ts (exercise_profile ex mn mx) [0] vi = Inr acc
         \<and> add_tail_valley fp ts (smooth_signal savgol ex signal) (exercise_profile ex mn mx)
              d p acc = Inr tl
         \<and> bs = (if length tl < 2 \<and> original_reps rep_column \<noteq> []
                  then guided_boundaries (smooth_signal savgol ex signal) (the rep_column)
                  else tl)"
  using assms
  by (auto simp: rep_boundaries_def Let_def split: sum.splits if_splits) (auto simp: less_Suc_eq_le numeral_2_eq_2 Suc_le_eq)

lemma rows_nonempty:
  assumes "r \<in> set reps"
  shows "filter (\<lambda>i. reps ! i = r) [0..<length reps] \<noteq> []"
proof -
  from assms obtain i where "i < length reps" "reps ! i = r" by (auto simp: in_set_conv_nth)
  then have "i \<in> set (filter (\<lambda>i. reps ! i = r) [0..<length reps])" by simp
  then show ?thesis by (metis empty_iff empty_set)
qed

lemma guided_valley_eq:
  "guided_valley sm rows =
     (let w = max ((last rows - hd rows) div 5) 10;
          lo = last rows - w;
          hi = min (length sm) (last rows + w);
          window = take (hi - lo) (drop lo sm)
      in if 3 < length window
         then Some (lo + length (takeWhile (\<lambda>v. v \<noteq> Min (set window)) window))
         else None)"
  unfolding guided_valley_def search_window_def np_argmin_def Let_def ..

lemma guided_loop_step:
  assumes "filter (\<lambda>i. reps ! i = r) [0..<length reps] \<noteq> []"
  shows "guided_loop sm reps (r # rest) valid =
     guided_loop sm reps rest
       (let rows = filter (\<lambda>i. reps ! i = r) [0..<length reps];
            w = max ((last rows - hd rows) div 5) 10;
            lo = last rows - w;
            hi = min (length sm) (last rows + w);
            window = take (hi - lo) (drop lo sm);
            b = lo + length (takeWhile (\<lambda>v. v \<noteq> Min (set window)) window)
        in if 3 < length window \<and> last valid < b then valid @ [b] else valid)"
proof -
  define rows where "rows = filter (\<lambda>i. reps ! i = r) [0..<length reps]"
  define w where "w = max ((last rows - hd rows) div 5) 10"
  define lo where "lo = last rows - w"
  define hi where "hi = min (length sm) (last rows + w)"
  define window where "window = take (hi - lo) (drop lo sm)"
  define b where "b = lo + length (takeWhile (\<lambda>v. v \<noteq> Min (set window)) window)"
  have gv: "guided_valley sm rows = (if 3 < length window then Some b else None)"
    unfolding guided_valley_eq Let_def b_def window_def hi_def lo_def w_def ..
  from assms have ne: "length rows \<noteq> 0" by (simp add: rows_def)
  have "guided_loop sm reps (r # rest) valid =
          (case guided_valley sm rows of
             None \<Rightarrow> guided_loop sm reps rest valid
           | Some valley_idx \<Rightarrow>
               if valley_idx > last valid
               then guided_loop sm reps rest (valid @ [valley_idx])
               else guided_loop sm reps rest valid)"
    unfolding guided_loop.simps Let_def rows_def [symmetric] using ne by (simp only: if_False)
  also have "\<dots> = guided_loop sm reps rest
                     (if 3 < length window \<and> last valid < b then valid @ [b] else valid)"
    unfolding gv by (cases "3 < length window"; cases "last valid < b"; simp only: if_True if_False option.case simp_thms)
  finally show ?thesis
    unfolding Let_def rows_def [symmetric] w_def [symmetric] lo_def [symmetric]
      hi_def [symmetric] window_def [symmetric] b_def [symmetric] .
qed

lemma guided_loop_fold:
  assumes "set rs \<subseteq> set reps"
  shows "guided_loop sm reps rs acc =
     foldl (\<lambda>valid r.
              let rows = filter (\<lambda>i. reps ! i = r) [0..<length reps];
                  w = max ((last rows - hd rows) div 5) 10;
                  lo = last rows - w;
                  hi = min (length sm) (last rows + w);
                  window = take (hi - lo) (drop lo sm);
                  b = lo + length (takeWhile (\<lambda>v. v \<noteq> Min (set window)) window)
              in if 3 < length window \<and> last valid < b then valid @ [b] else valid)
           acc rs"
  using assms
proof (induction rs arbitrary: acc)
  case Nil
  show ?case unfolding guided_loop.simps foldl_Nil ..
next
  case (Cons r rs)
  from Cons.prems have r: "r \<in> set reps" and rs: "set rs \<subseteq> set reps" by auto
  show ?case
    unfolding guided_loop_step [OF rows_nonempty [OF r]] Cons.IH [OF rs] foldl_Cons ..
qed

lemma original_reps_subset: "set (original_reps (Some reps)) \<subseteq> set reps"
  by (auto simp: original_reps_def)

lemma std_spike: "np_std signal_spike = 4.2"
  by (simp add: np_std_def np_mean_def signal_spike_def power2_eq_square real_sqrt_divide)

lemma prominence_spike:
  "adaptive_prominence (exercise_profile UNKNOWN 800 8000) signal_spike = 2.1"
  unfolding adaptive_prominence_def Let_def std_spike by (simp add: signal_spike_def)

lemma smooth_spike: "smooth_signal no_filter UNKNOWN signal_spike = signal_spike"
  by (rule smooth_short, simp add: signal_spike_def)

lemma valleys_spike:
  "find_peaks (map uminus signal_spike) (Some (nat 2)) 2.1 = []"
  "find_peaks (map uminus signal_spike) (Some (nat 2)) (2.1 * 0.5) = [4]"
  "find_peaks (map uminus signal_spike) (Some (nat 2)) (2.1 * 0.25) = [4, 8]"
  by (simp_all add: find_peaks_defs signal_spike_def)

lemma detect_spike: "detect_valleys find_peaks signal_spike 2 2.1 = Inr ([4, 8], 0.525)"
proof -
  have h: "(1::int) \<le> 2" by simp
  show ?thesis
    unfolding detect_valleys_ladder [OF h] Let_def valleys_spike by simp
qed

lemma candidates_spike:
  "valley_candidates no_filter find_peaks UNKNOWN ts_250 signal_spike 800 8000
     = Inr (2, [4, 8], 0.525)"
proof -
  have ne: "signal_spike \<noteq> []" by (simp add: signal_spike_def)
  show ?thesis
    using ne
    unfolding valley_candidates_def Let_def smooth_spike prominence_spike
      min_distance_250 sum.case detect_spike prod.case
    by simp
qed

lemma tail_spike:
  "add_tail_valley find_peaks ts_250 signal_spike (exercise_profile UNKNOWN 800 8000) 2 0.525
     [0, 4, 8] = Inr [0, 4, 8]"
  by (simp add: add_tail_valley_def ts_250_def)

lemma boundaries_spike:
  "rep_boundaries no_filter find_peaks UNKNOWN ts_250 signal_spike (Some reps_unlabelled)
        800 8000
     = Inr [0, 4, 8]"
  unfolding rep_boundaries_def Let_def candidates_spike sum.case prod.case
    smooth_spike filter_two_valleys tail_spike
  by simp

text \<open>
  C6, as the code has it. For a non-empty frame and a minimum distance \<open>d\<close> of at least
  one sample, the refiner returns boundaries \<open>bs\<close> only as follows. Valleys are detected
  on the smoothed signal at the adaptive prominence \<open>p\<close>. When fewer than two valleys are
  detected (detected, not accepted by the duration filter), detection is retried at
  \<open>0.5 p\<close>, \<open>0.25 p\<close> and \<open>0.1 p\<close> in this order, and the first scale that detects
  two valleys or more gives the candidates and replaces the prominence; if none does,
  peaks are detected at \<open>0.5 p\<close> and are the candidates when there are two or more, and
  otherwise the valleys of the last retry are kept, the prominence staying \<open>p\<close> in both
  cases. These candidates are what \<open>valley_candidates\<close> returns. They go through the
  duration filter and the tail search. When fewer than two boundaries remain and the
  frame has positive rep labels, the boundaries are those of the guided fallback: starting
  from the boundary 0 and taking the positive labels in ascending order, each label
  contributes the first row at which the smoothed signal is smallest among the rows
  within \<open>max(int(0.2 * span), 10)\<close> rows of the label's last row (cut at the ends of the
  frame), unless that window has three rows or fewer or the row is not after the last
  boundary so far; the last row of the frame is appended when the last boundary is before
  it. In every other case the boundaries are those left by the filter and the tail search.
\<close>

theorem fallback_ladder_order:
  assumes "signal \<noteq> []"
    and "estimate_min_distance ex ts = Inr d" and "1 \<le> d"
    and "rep_boundaries savgol fp ex ts signal rep_column mn mx = Inr bs"
  shows "(let prof = exercise_profile ex mn mx;
              sm = smooth_signal savgol ex signal;
              p = adaptive_prominence prof sm;
              valleys = (\<lambda>q. fp (map uminus sm) (Some (nat d)) q);
              peaks_half = fp sm (Some (nat d)) (p * 0.5);
              detected =
                (if 2 \<le> length (valleys p) then (valleys p, p)
                 else if 2 \<le> length (valleys (p * 0.5)) then (valleys (p * 0.5), p * 0.5)
                 else if 2 \<le> length (valleys (p * 0.25)) then (valleys (p * 0.25), p * 0.25)
                 else if 2 \<le> length (valleys (p * 0.1)) then (valleys (p * 0.1), p * 0.1)
                 else if 2 \<le> length peaks_half then (peaks_half, p)
                 else (valleys (p * 0.1), p));
              labels = (case rep_column of None \<Rightarrow> []
                        | Some reps \<Rightarrow> sort (remdups (filter (\<lambda>r. 0 < r) reps)));
              refine = (\<lambda>(reps :: int list) valid r.
                 let rows = filter (\<lambda>i. reps ! i = r) [0..<length reps];
                     w = max ((last rows - hd rows) div 5) 10;
                     lo = last rows - w;
                     hi = min (length sm) (last rows + w);
                     window = take (hi - lo) (drop lo sm);
                     b = lo + length (takeWhile (\<lambda>v. v \<noteq> Min (set window)) window)
                 in if 3 < length window \<and> last valid < b then valid @ [b] else valid);
              guided = (\<lambda>reps. let g = foldl (refine reps) [0] labels
                               in if last g < length reps - 1 then g @ [length reps - 1] else g)
          in valley_candidates savgol fp ex ts signal mn mx = Inr (d, fst detected, snd detected)
           \<and> (\<exists>acc tl. filter_valleys ts prof [0] (fst detected) = Inr acc
                \<and> add_tail_valley fp ts sm prof d (snd detected) acc = Inr tl
                \<and> bs = (if length tl < 2 \<and> labels \<noteq> [] then guided (the rep_column)
                         else tl)))"
proof -
  define prof where "prof = exercise_profile ex mn mx"
  define sm where "sm = smooth_signal savgol ex signal"
  define p where "p = adaptive_prominence prof sm"
  define detected where
    "detected =
       (if 2 \<le> length (fp (map uminus sm) (Some (nat d)) p)
          then (fp (map uminus sm) (Some (nat d)) p, p)
        else if 2 \<le> length (fp (map uminus sm) (Some (nat d)) (p * 0.5))
          then (fp (map uminus sm) (Some (nat d)) (p * 0.5), p * 0.5)
        else if 2 \<le> length (fp (map uminus sm) (Some (nat d)) (p * 0.25))
          then (fp (map uminus sm) (Some (nat d)) (p * 0.25), p * 0.25)
        else if 2 \<le> length (fp (map uminus sm) (Some (nat d)) (p * 0.1))
          then (fp (map uminus sm) (Some (nat d)) (p * 0.1), p * 0.1)
        else if 2 \<le> length (fp sm (Some (nat d)) (p * 0.5))
          then (fp sm (Some (nat d)) (p * 0.5), p)
        else (fp (map uminus sm) (Some (nat d)) (p * 0.1), p))"
  define labels where
    "labels = (case rep_column of None \<Rightarrow> []
               | Some reps \<Rightarrow> sort (remdups (filter (\<lambda>r. 0 < r) reps)))"
  define refine where
    "refine = (\<lambda>(reps :: int list) valid r.
                 let rows = filter (\<lambda>i. reps ! i = r) [0..<length reps];
                     w = max ((last rows - hd rows) div 5) 10;
                     lo = last rows - w;
                     hi = min (length sm) (last rows + w);
                     window = take (hi - lo) (drop lo sm);
                     b = lo + length (takeWhile (\<lambda>v. v \<noteq> Min (set window)) window)
                 in if 3 < length window \<and> last valid < b then valid @ [b] else valid)"
  define guided where
    "guided = (\<lambda>reps. let g = foldl (refine reps) [0] labels
                      in if last g < length reps - 1 then g @ [length reps - 1] else g)"
  have dv: "detect_valleys fp sm d p = Inr detected"
    unfolding detect_valleys_ladder [OF assms(3)] Let_def detected_def ..
  have vc: "valley_candidates savgol fp ex ts signal mn mx
              = Inr (d, fst detected, snd detected)"
    unfolding valley_candidates_def Let_def prof_def [symmetric] sm_def [symmetric]
      p_def [symmetric] assms(2) sum.case dv
    using assms(1) by (simp add: case_prod_beta)
  have lab: "original_reps rep_column = labels"
    unfolding original_reps_def labels_def ..
  from rep_boundaries_stages [OF assms(4)] obtain d' vi p' acc tl where
    st: "valley_candidates savgol fp ex ts signal mn mx = Inr (d', vi, p')"
      "filter_valleys ts prof [0] vi = Inr acc"
      "add_tail_valley fp ts sm prof d' p' acc = Inr tl"
      "bs = (if length tl < 2 \<and> original_reps rep_column \<noteq> []
             then guided_boundaries sm (the rep_column) else tl)"
    unfolding prof_def sm_def by blast
  from st(1) vc have e: "d' = d" "vi = fst detected" "p' = snd detected" by simp_all
  have gb: "guided_boundaries sm (the rep_column) = guided (the rep_column)"
    if "labels \<noteq> []"
  proof -
    from that obtain reps where rc: "rep_column = Some reps"
      unfolding labels_def by (cases rep_column) simp_all
    have l: "original_reps (Some reps) = labels" using lab rc by simp
    have fold: "guided_loop sm reps labels [0] = foldl (refine reps) [0] labels"
      using guided_loop_fold [where rs = "original_reps (Some reps)" and reps = reps
          and sm = sm and acc = "[0]", OF original_reps_subset]
      unfolding l refine_def .
    show ?thesis
      unfolding rc option.sel guided_boundaries_def l fold guided_def ..
  qed
  have bs: "bs = (if length tl < 2 \<and> labels \<noteq> [] then guided (the rep_column) else tl)"
    using st(4) gb unfolding lab by auto
  have res: "valley_candidates savgol fp ex ts signal mn mx = Inr (d, fst detected, snd detected)
           \<and> (\<exists>acc tl. filter_valleys ts prof [0] (fst detected) = Inr acc
                \<and> add_tail_valley fp ts sm prof d (snd detected) acc = Inr tl
                \<and> bs = (if length tl < 2 \<and> labels \<noteq> [] then guided (the rep_column)
                         else tl))"
    using vc st(2,3) bs unfolding e by blast
  show ?thesis
    unfolding Let_def
    using res
    unfolding guided_def refine_def labels_def detected_def p_def sm_def prof_def Let_def .
qed

text \<open>
  On the frame with a spike the adaptive prominence is 2.1: no valley is detected at 2.1,
  one at 1.05 and two at 0.525, so the second retry ends the ladder with the valleys 4 and
  8, which the filter accepts. On the flat frame with two labelled reps nothing is
  detected at any stage and the guided fallback gives the boundaries 0 and 9.
\<close>

theorem fallback_ladder_order_witness:
  "signal_spike \<noteq> [] \<and> signal_flat \<noteq> []
   \<and> estimate_min_distance UNKNOWN ts_250 = Inr 2 \<and> (1::int) \<le> 2
   \<and> rep_boundaries no_filter find_peaks UNKNOWN ts_250 signal_spike (Some reps_unlabelled)
        800 8000
        = Inr [0, 4, 8]
   \<and> adaptive_prominence (exercise_profile UNKNOWN 800 8000) signal_spike = 2.1
   \<and> find_peaks (map uminus signal_spike) (Some 2) 2.1 = []
   \<and> find_peaks (map uminus signal_spike) (Some 2) 1.05 = [4]
   \<and> find_peaks (map uminus signal_spike) (Some 2) 0.525 = [4, 8]
   \<and> valley_candidates no_filter find_peaks UNKNOWN ts_250 signal_spike 800 8000
        = Inr (2, [4, 8], 0.525)
   \<and> rep_boundaries no_filter find_peaks UNKNOWN ts_250 signal_flat (Some reps_two_labels)
        800 8000 = Inr [0, 9]
   \<and> valley_candidates no_filter find_peaks UNKNOWN ts_250 signal_flat 800 8000
        = Inr (2, [], 0.15)"
proof -
  have h: "(1::int) \<le> 2" by simp
  have ne: "signal_spike \<noteq> []" "signal_flat \<noteq> []"
    by (simp_all add: signal_spike_def signal_flat_def)
  have v: "find_peaks (map uminus signal_spike) (Some 2) 2.1 = []"
    "find_peaks (map uminus signal_spike) (Some 2) 1.05 = [4]"
    "find_peaks (map uminus signal_spike) (Some 2) 0.525 = [4, 8]"
    using valleys_spike by simp_all
  have a: "(if 2 \<le> length ([] :: nat list) then ([], 2.1)
            else if 2 \<le> length [4 :: nat] then ([4], 2.1 * 0.5)
            else if 2 \<le> length [4, 8 :: nat] then ([4, 8], 2.1 * 0.25)
            else x) = ([4, 8], 0.525 :: real)" for x
    by simp
  note spike = fallback_ladder_order [OF ne(1) min_distance_250 h boundaries_spike,
      unfolded Let_def smooth_spike prominence_spike valleys_spike a fst_conv snd_conv]
  note flat = fallback_ladder_order [OF ne(2) min_distance_250 h boundaries_flat(1),
      unfolded Let_def smooth_examples prominence_flat no_peaks_flat]
  from spike have s: "valley_candidates no_filter find_peaks UNKNOWN ts_250 signal_spike 800 8000
        = Inr (2, [4, 8], 0.525)"
    by (rule conjunct1)
  from flat have f: "valley_candidates no_filter find_peaks UNKNOWN ts_250 signal_flat 800 8000
        = Inr (2, [], 0.15)"
    by simp
  show ?thesis
    using ne min_distance_250 h boundaries_spike prominence_spike v s boundaries_flat(1) f
    by blast
qed

text \<open>The frame with two early valleys, up to the duration filter.\<close>

lemma std_early: "np_std signal_early_valleys = 0.4"
  by (simp add: np_std_def np_mean_def signal_early_valleys_def power2_eq_square real_sqrt_divide)

lemma prominence_early:
  "adaptive_prominence (exercise_profile UNKNOWN 800 8000) signal_early_valleys = 0.2"
  unfolding adaptive_prominence_def Let_def std_early by (simp add: signal_early_valleys_def)

lemma valleys_early: "find_valleys find_peaks signal_early_valleys 2 0.2 = Inr [1, 3]"
  by (simp add: find_valleys_def scipy_find_peaks_def signal_early_valleys_def find_peaks_defs)

lemma candidates_early:
  "valley_candidates no_filter find_peaks UNKNOWN ts_250 signal_early_valleys 800 8000
     = Inr (2, [1, 3], 0.2)"
proof -
  have ne: "signal_early_valleys \<noteq> []" by (simp add: signal_early_valleys_def)
  have d: "detect_valleys find_peaks signal_early_valleys 2 0.2 = Inr ([1, 3], 0.2)"
    unfolding detect_valleys_def valleys_early by simp
  show ?thesis
    using ne
    unfolding valley_candidates_def Let_def smooth_examples prominence_early
      min_distance_250 sum.case d prod.case
    by simp
qed

lemma filter_early:
  "filter_valleys ts_250 (exercise_profile UNKNOWN 800 8000) [0] [1, 3] = Inr [0]"
  by (simp add: ts_250_def)

text \<open>
  C6 as stated fails twice. On the flat frame with two labelled reps, the first labelled
  rep covers the rows 0 to 4; 20 percent of its span is less than one row, but the
  window reaches 10 rows to either side, and the boundary chosen for it is row 9, five
  rows after the rep's last row. On the frame with two early valleys, both valleys are
  detected at the adaptive prominence 0.2 and both are rejected by the duration filter,
  which accepts no valley; yet no retry takes place: the candidates are those of the
  first detection and the prominence is unchanged.
\<close>

theorem guided_window_counterexample:
  "rep_boundaries no_filter find_peaks UNKNOWN ts_250 signal_flat (Some reps_two_labels)
         800 8000 = Inr [0, 9]
   \<and> filter (\<lambda>i. reps_two_labels ! i = 1) [0..<length reps_two_labels] = [0, 1, 2, 3, 4]
   \<and> 0.2 * real (last [0, 1, 2, 3, 4] - hd [0, 1, 2, 3, 4 :: nat]) < 1
   \<and> search_window [0, 1, 2, 3, 4] = 10
   \<and> guided_valley signal_flat [0, 1, 2, 3, 4] = Some 9
   \<and> 9 - last [0, 1, 2, 3, 4 :: nat] = 5
   \<and> adaptive_prominence (exercise_profile UNKNOWN 800 8000) signal_early_valleys = 0.2
   \<and> valley_candidates no_filter find_peaks UNKNOWN ts_250 signal_early_valleys 800 8000
         = Inr (2, [1, 3], 0.2)
   \<and> filter_valleys ts_250 (exercise_profile UNKNOWN 800 8000) [0] [1, 3] = Inr [0]"
  using boundaries_flat(1) rows_two_labels(1) guided_flat(1) guided_flat(2)
    prominence_early candidates_early filter_early
  by simp

subsection \<open>The degenerate segmentation\<close>

lemma guided_loop_extends: "\<exists>ys. guided_loop sm reps rs acc = acc @ ys"
proof (induction rs arbitrary: acc)
  case Nil
  then show ?case by simp
next
  case (Cons r rs)
  show ?case
  proof (cases "filter (\<lambda>i. reps ! i = r) [0..<length reps] = []")
    case True
    then show ?thesis using Cons.IH [of acc] by simp
  next
    case False
    show ?thesis
    proof (cases "guided_valley sm (filter (\<lambda>i. reps ! i = r) [0..<length reps])")
      case None
      then show ?thesis using False Cons.IH [of acc] by (simp add: Let_def)
    next
      case (Some v)
      show ?thesis
      proof (cases "v > last acc")
        case True
        from Cons.IH [of "acc @ [v]"] obtain ys where
          "guided_loop sm reps rs (acc @ [v]) = (acc @ [v]) @ ys" by blast
        then show ?thesis using False Some True by (simp add: Let_def)
      next
        case F: False
        then show ?thesis using False Some Cons.IH [of acc] by (simp add: Let_def)
      qed
    qed
  qed
qed

lemma guided_boundaries_start: "\<exists>ys. guided_boundaries sm reps = 0 # ys"
proof -
  from guided_loop_extends [of sm reps "original_reps (Some reps)" "[0]"]
  obtain ys where "guided_loop sm reps (original_reps (Some reps)) [0] = [0] @ ys" by blast
  then show ?thesis by (simp add: guided_boundaries_def Let_def)
qed

lemma rep_boundaries_start:
  assumes "rep_boundaries savgol fp ex ts signal rep_column mn mx = Inr bs"
  shows "\<exists>ys. bs = 0 # ys"
proof -
  from rep_boundaries_stages [OF assms] obtain d vi p acc tl where
    f: "filter_valleys ts (exercise_profile ex mn mx) [0] vi = Inr acc"
    and t: "add_tail_valley fp ts (smooth_signal savgol ex signal) (exercise_profile ex mn mx)
              d p acc = Inr tl"
    and bs: "bs = (if length tl < 2 \<and> original_reps rep_column \<noteq> []
                  then guided_boundaries (smooth_signal savgol ex signal) (the rep_column)
                  else tl)"
    by blast
  from filter_valleys_accepts [OF f] obtain ys where "acc = [0] @ ys" by auto
  moreover from add_tail_valley_extends [OF t] obtain extra where "tl = acc @ extra" by blast
  ultimately have "tl = 0 # (ys @ extra)" by simp
  with bs guided_boundaries_start [of "smooth_signal savgol ex signal" "the rep_column"]
  show ?thesis by auto
qed

lemma rep_labels_whole:
  assumes "start_idx info = 0" and "end_idx info = n - 1" and "rep info = k"
  shows "rep_labels n [info] = replicate n k"
proof -
  have "map (\<lambda>i. if start_idx info \<le> i \<and> i \<le> end_idx info then rep info
                   else replicate n 0 ! i) [0..<n] = map (\<lambda>i. k) [0..<n]"
    using assms by (intro map_cong) auto
  then show ?thesis
    by (simp add: rep_labels_def assign_rep_def map_replicate_const)
qed

text \<open>
  C7, as the code has it. For every frame with a \<open>rep\<close> column and at least two samples
  on which detection, retries, peak fallback, duration filter, tail search and guided
  fallback leave fewer than two boundaries, the function returns exactly one rep: it is
  numbered 1, starts at row 0, ends at the last row, lasts from the first to the last
  timestamp, and every row is labelled 1. The rep is built like the final segment of any
  segmentation, without the key \<open>next_rep_start_idx\<close>; the output has no field that
  marks it as degenerate.
\<close>

theorem degenerate_single_rep:
  assumes "rep_boundaries savgol fp ex ts signal (Some reps) mn mx = Inr bs"
    and "length bs < 2"
    and "length signal \<ge> 2"
    and "length ts = length signal"
  shows "(let n = length signal;
              info = make_rep_info ts signal (smooth_signal savgol ex signal) 1 0 (n - 1) None
          in resegment_single_source savgol fp ex ts signal (Some reps) mn mx
               = Inr (replicate n 1, [info])
           \<and> rep info = 1 \<and> start_idx info = 0 \<and> end_idx info = n - 1
           \<and> next_rep_start_idx info = None
           \<and> start_time_ms info = ts ! 0 \<and> end_time_ms info = ts ! (n - 1)
           \<and> duration_ms info = ts ! (n - 1) - ts ! 0)"
proof -
  let ?sm = "smooth_signal savgol ex signal"
  let ?info = "make_rep_info ts signal ?sm 1 0 (length signal - 1) None"
  from rep_boundaries_start [OF assms(1)] assms(2) have bs: "bs = [0]"
    by (cases bs) auto
  have ix: "\<not> (\<exists>v \<in> set (take 10 [0::nat]). v \<ge> length ts)"
    using assms(3,4) by auto
  have ls: "last_segment ts signal ?sm [0] = [?info]"
    using assms(3) by (simp add: last_segment_def)
  have lab: "rep_labels (length signal) [?info] = replicate (length signal) 1"
    by (rule rep_labels_whole) (simp_all add: make_rep_info_fields)
  have "resegment_single_source savgol fp ex ts signal (Some reps) mn mx
               = Inr (replicate (length signal) 1, [?info])"
    using ix
    unfolding resegment_single_source_def assms(1) bs sum.case Let_def
      build_reps.simps ls append_Nil lab
    by simp
  then show ?thesis
    unfolding Let_def make_rep_info_fields by simp
qed

text \<open>
  The flat frame without labels: nothing is detected, no label is positive, the only
  boundary is row 0, and the single rep covers the rows 0 to 9 and lasts 2250 ms.
\<close>

theorem degenerate_single_rep_witness:
  "rep_boundaries no_filter find_peaks UNKNOWN ts_250 signal_flat (Some reps_unlabelled)
         800 8000 = Inr [0]
   \<and> length [0::nat] < 2 \<and> length signal_flat \<ge> 2 \<and> length ts_250 = length signal_flat
   \<and> resegment_single_source no_filter find_peaks UNKNOWN ts_250 signal_flat
         (Some reps_unlabelled) 800 8000
       = Inr (replicate 10 1, [make_rep_info ts_250 signal_flat signal_flat 1 0 9 None])
   \<and> end_idx (make_rep_info ts_250 signal_flat signal_flat 1 0 9 None) = 9
   \<and> duration_ms (make_rep_info ts_250 signal_flat signal_flat 1 0 9 None) = 2250"
proof -
  have h: "length [0::nat] < 2" "length signal_flat \<ge> 2" "length ts_250 = length signal_flat"
    by (simp_all add: signal_flat_def ts_250_def)
  have l: "length signal_flat = 10" "(10::nat) - 1 = 9" by (simp_all add: signal_flat_def)
  have t: "ts_250 ! 9 - ts_250 ! 0 = 2250" by (simp add: ts_250_def)
  note w = degenerate_single_rep [OF boundaries_flat(2) h, unfolded Let_def smooth_examples l t]
  from w boundaries_flat(2) h show ?thesis by blast
qed

text \<open>
  C7 as stated fails on the flat frame without labels. The whole ladder fails there, and
  the output is the column of labels, all 1, and one dictionary with the eleven keys
  of any final segment. The final rep of the frame with two valleys, a normal
  segmentation, has the same keys; no field of the degenerate output says that the
  segmentation failed.
\<close>

theorem degenerate_unflagged_counterexample:
  "rep_boundaries no_filter find_peaks UNKNOWN ts_250 signal_flat (Some reps_unlabelled)
         800 8000 = Inr [0]
   \<and> resegment_single_source no_filter find_peaks UNKNOWN ts_250 signal_flat
         (Some reps_unlabelled) 800 8000
       = Inr ([1, 1, 1, 1, 1, 1, 1, 1, 1, 1],
              [\<lparr>rep = 1, start_idx = 0, end_idx = 9, next_rep_start_idx = None,
                start_time_ms = 0, end_time_ms = 2250, duration_ms = 2250, peak_idx = 0,
                peak_time_ms = 0, peak_value = 5, valley_value = 5, amplitude = 0\<rparr>])
   \<and> rep_boundaries no_filter find_peaks UNKNOWN ts_250 signal_two_valleys
         (Some reps_unlabelled) 800 8000 = Inr [0, 4, 8]
   \<and> last (snd (projr (resegment_single_source no_filter find_peaks UNKNOWN ts_250
         signal_two_valleys (Some reps_unlabelled) 800 8000)))
       = \<lparr>rep = 3, start_idx = 8, end_idx = 9, next_rep_start_idx = None,
          start_time_ms = 2000, end_time_ms = 2250, duration_ms = 250, peak_idx = 9,
          peak_time_ms = 2250, peak_value = 10, valley_value = 9, amplitude = 1\<rparr>"
  unfolding resegment_flat_unlabelled resegment_two_valleys boundaries_flat
    boundaries_two_valleys
  by (simp add: rep_of_flat_unlabelled_def reps_of_two_valleys_def)

end
